theory Spec2Isabelle
  imports Complex_Main
begin

section \<open>JavaScript values\<close>

text \<open>
  The route \<^verbatim>\<open>POST /api/generate-key\<close> of \<^verbatim>\<open>src/routes/publicApiRoutes.js\<close> works on
  JavaScript values: header strings, a parsed JSON body, numbers and \<^verbatim>\<open>Date\<close> objects.

  A JavaScript number is an IEEE double. The model carries a finite number as its exact
  real value and keeps the three special values apart. The route does arithmetic on
  numbers in two places only, \<^verbatim>\<open>now - requestTime\<close> and
  \<^verbatim>\<open>getDate() + expirationDays\<close>, and the model computes both exactly. Doubles do the
  same on integers below \<open>2 ^ 53\<close> in magnitude; a timestamp beyond that is more than
  the window away from any time value in the model and in the engine alike; a sum
  with a non-integer may differ by the rounding of the double, and the theorems about
  the expiry are stated for whole numbers of days.

  A string is a list of characters, each character one code unit (the Latin-1 range).
\<close>

datatype jsnum = Fin real | PosInf | NegInf | NaN

datatype jsval =
    JUndefined
  | JNull
  | JBool bool
  | JNum jsnum
  | JStr string
  | JArr "jsval list"
  | JObj "(string \<times> jsval) list"
  | JDate "int option"

text \<open>
  \<open>JObj\<close> lists the own properties of an object in insertion order, with distinct keys.
  \<open>JDate\<close> holds the time value of a \<^verbatim>\<open>Date\<close> in milliseconds since the epoch;
  \<open>None\<close> is the invalid date (time value NaN).
\<close>

fun num_neg :: "jsnum \<Rightarrow> jsnum" where
  "num_neg (Fin a) = Fin (- a)"
| "num_neg PosInf = NegInf"
| "num_neg NegInf = PosInf"
| "num_neg NaN = NaN"

fun num_add :: "jsnum \<Rightarrow> jsnum \<Rightarrow> jsnum" where
  "num_add NaN _ = NaN"
| "num_add _ NaN = NaN"
| "num_add (Fin a) (Fin b) = Fin (a + b)"
| "num_add PosInf NegInf = NaN"
| "num_add NegInf PosInf = NaN"
| "num_add PosInf _ = PosInf"
| "num_add _ PosInf = PosInf"
| "num_add NegInf _ = NegInf"
| "num_add _ NegInf = NegInf"

definition num_sub :: "jsnum \<Rightarrow> jsnum \<Rightarrow> jsnum" where
  "num_sub a b = num_add a (num_neg b)"

fun num_abs :: "jsnum \<Rightarrow> jsnum" where
  "num_abs (Fin a) = Fin \<bar>a\<bar>"
| "num_abs PosInf = PosInf"
| "num_abs NegInf = PosInf"
| "num_abs NaN = NaN"

text \<open>\<open>num_lt a b\<close> is \<^verbatim>\<open>a < b\<close>: false as soon as one side is NaN.\<close>

fun num_lt :: "jsnum \<Rightarrow> jsnum \<Rightarrow> bool" where
  "num_lt NaN _ = False"
| "num_lt _ NaN = False"
| "num_lt (Fin a) (Fin b) = (a < b)"
| "num_lt _ NegInf = False"
| "num_lt NegInf _ = True"
| "num_lt PosInf _ = False"
| "num_lt _ PosInf = True"

definition num_gt :: "jsnum \<Rightarrow> jsnum \<Rightarrow> bool" where
  "num_gt a b = num_lt b a"

definition num_le :: "jsnum \<Rightarrow> jsnum \<Rightarrow> bool" where
  "num_le a b = (a \<noteq> NaN \<and> b \<noteq> NaN \<and> \<not> num_lt b a)"

text \<open>Truthiness (ToBoolean) and \<^verbatim>\<open>typeof\<close>.\<close>

fun truthy :: "jsval \<Rightarrow> bool" where
  "truthy JUndefined = False"
| "truthy JNull = False"
| "truthy (JBool b) = b"
| "truthy (JNum (Fin r)) = (r \<noteq> 0)"
| "truthy (JNum NaN) = False"
| "truthy (JNum PosInf) = True"
| "truthy (JNum NegInf) = True"
| "truthy (JStr s) = (s \<noteq> [])"
| "truthy (JArr _) = True"
| "truthy (JObj _) = True"
| "truthy (JDate _) = True"

fun typeof :: "jsval \<Rightarrow> string" where
  "typeof JUndefined = ''undefined''"
| "typeof JNull = ''object''"
| "typeof (JBool _) = ''boolean''"
| "typeof (JNum _) = ''number''"
| "typeof (JStr _) = ''string''"
| "typeof (JArr _) = ''object''"
| "typeof (JObj _) = ''object''"
| "typeof (JDate _) = ''object''"

text \<open>A header value or another optional string is falsy when undefined or empty.\<close>

definition truthy_str :: "string option \<Rightarrow> bool" where
  "truthy_str s = (case s of None \<Rightarrow> False | Some t \<Rightarrow> t \<noteq> [])"

subsection \<open>Strings: white space, \<^verbatim>\<open>trim\<close>, \<^verbatim>\<open>parseInt\<close>\<close>

text \<open>
  White space and line terminators of ECMAScript among the code units below 256:
  TAB, LF, VT, FF, CR, SP and NBSP.
\<close>

definition is_white_space :: "char \<Rightarrow> bool" where
  "is_white_space c = ((of_char c :: nat) \<in> {9, 10, 11, 12, 13, 32, 160})"

definition trim :: "string \<Rightarrow> string" where
  "trim s = rev (dropWhile is_white_space (rev (dropWhile is_white_space s)))"

text \<open>The value of a character as a digit of radix \<open>R\<close>, if it is one.\<close>

definition digit_of :: "nat \<Rightarrow> char \<Rightarrow> nat option" where
  "digit_of R c =
     (let n = (of_char c :: nat);
          v = (if 48 \<le> n \<and> n \<le> 57 then Some (n - 48)
               else if 97 \<le> n \<and> n \<le> 122 then Some (n - 87)
               else if 65 \<le> n \<and> n \<le> 90 then Some (n - 55)
               else None)
      in case v of None \<Rightarrow> None | Some d \<Rightarrow> if d < R then Some d else None)"

definition digits_value :: "nat \<Rightarrow> string \<Rightarrow> nat" where
  "digits_value R z = foldl (\<lambda>a c. a * R + the (digit_of R c)) 0 z"

text \<open>
  \<^verbatim>\<open>parseInt(string)\<close> with no radix: leading white space is skipped, one sign is read,
  a \<^verbatim>\<open>0x\<close> or \<^verbatim>\<open>0X\<close> prefix selects radix 16, and the longest prefix of digits is the
  value; with no digit the result is NaN. The model returns the integer the digits
  denote (the engine rounds it to a double, which changes nothing below \<open>2 ^ 53\<close>).
\<close>

definition parseInt :: "string \<Rightarrow> jsnum" where
  "parseInt inputString =
     (let S = dropWhile is_white_space inputString;
          sign = (if S \<noteq> [] \<and> hd S = CHR ''-'' then - 1 else (1 :: int));
          S1 = (if S \<noteq> [] \<and> (hd S = CHR ''+'' \<or> hd S = CHR ''-'') then tl S else S);
          hex = (take 2 S1 = ''0x'' \<or> take 2 S1 = ''0X'');
          R = (if hex then 16 else (10 :: nat));
          S2 = (if hex then drop 2 S1 else S1);
          Z = takeWhile (\<lambda>c. digit_of R c \<noteq> None) S2
      in if Z = [] then NaN else Fin (of_int (sign * int (digits_value R Z))))"

section \<open>Requests, responses, configuration and effects\<close>

record request =
  req_ip :: "string option"
  req_remoteAddress :: "string option"
  req_headers :: "string \<rightharpoonup> string"
  req_body :: jsval

text \<open>
  \<^verbatim>\<open>config.publicApi\<close> of \<^verbatim>\<open>config/config.js\<close> (read at call time): the
  feature flag, the allow-list and the shared secret, each of which may be unset.
\<close>

record publicApi_config =
  enabled :: bool
  allowedIPs :: "string list option"
  secret :: "string option"

record config =
  publicApi :: "publicApi_config option"

text \<open>The metadata object of the success response, and the two shapes of a JSON reply.\<close>

record key_data =
  d_id :: jsval
  d_name :: jsval
  d_description :: jsval
  d_keyPrefix :: string
  d_tokenLimit :: jsval
  d_dailyCostLimit :: jsval
  d_monthlyCostLimit :: jsval
  d_expiresAt :: jsval
  d_createdAt :: jsval
  d_status :: jsval

datatype reply =
    Failure string
  | Success key_data string

text \<open>
  \<open>Failure e\<close> is \<^verbatim>\<open>{success: false, error: e}\<close>; \<open>Success d k\<close> is
  \<^verbatim>\<open>{success: true, data: d, apiKey: k}\<close>. A response is a status code and a reply.
\<close>

type_synonym response = "nat \<times> reply"

subsection \<open>The services and built-ins the route calls\<close>

text \<open>
  The options object handed to \<^verbatim>\<open>apiKeyService.generateApiKey\<close>, the object it resolves
  to (its \<^verbatim>\<open>apiKey\<close> and the metadata the handler reads from the rest), and the event
  data handed to \<^verbatim>\<open>webhookService.sendNotification\<close>.
\<close>

record apiKeyOptions =
  o_name :: string
  o_description :: string
  o_tokenLimit :: jsval
  o_expiresAt :: jsval
  o_dailyCostLimit :: jsval
  o_monthlyCostLimit :: jsval
  o_createdBy :: string
  o_activationMode :: string

record apiKeyResult =
  r_apiKey :: "string option"
  r_id :: jsval
  r_name :: jsval
  r_description :: jsval
  r_tokenLimit :: jsval
  r_dailyCostLimit :: jsval
  r_monthlyCostLimit :: jsval
  r_expiresAt :: jsval
  r_createdAt :: jsval
  r_status :: jsval

record notification =
  n_apiKeyId :: jsval
  n_apiKeyName :: jsval
  n_apiKey :: string
  n_keyPrefix :: string
  n_description :: jsval
  n_tokenLimit :: jsval
  n_dailyCostLimit :: jsval
  n_monthlyCostLimit :: jsval
  n_expiresAt :: jsval
  n_createdAt :: jsval
  n_timestamp :: string
  n_customWebhook :: jsval

text \<open>An awaited call either resolves to a value or rejects with an error.\<close>

datatype 'a completion = Resolves 'a | Rejects string

text \<open>
  The two services and the date helper are parameters of the route: whatever they
  return is an input of the handler. \<open>generateApiKey\<close> may resolve to no object at
  all (\<open>None\<close>), and an object may come without an \<^verbatim>\<open>apiKey\<close>.
\<close>

record services =
  generateApiKey :: "apiKeyOptions \<Rightarrow> apiKeyResult option completion"
  sendNotification :: "string \<Rightarrow> notification \<Rightarrow> unit completion"
  getISOStringWithTimezone :: "int \<Rightarrow> string"

text \<open>
  The built-ins of the platform that the model does not spell out:
  \<^verbatim>\<open>crypto.createHmac('sha256', key).update(data).digest('hex')\<close>, \<^verbatim>\<open>JSON.stringify\<close>,
  the conversion of numbers, arrays, objects and dates to strings, the conversion of
  strings to numbers, and the offset of the local time zone (\<open>LocalTZA t isUTC\<close> of
  ECMAScript, in milliseconds).
\<close>

record builtins =
  hmac_sha256_hex :: "string \<Rightarrow> string \<Rightarrow> string"
  JSON_stringify :: "jsval \<Rightarrow> string"
  OtherToString :: "jsval \<Rightarrow> string"
  StringToNumber :: "string \<Rightarrow> jsnum"
  LocalTZA :: "int \<Rightarrow> bool \<Rightarrow> int"

text \<open>What a request does besides answering: log lines and calls of the two services.\<close>

datatype event =
    LogInfo string
  | LogWarn string
  | LogError string
  | Issue apiKeyOptions
  | Notify string notification

text \<open>A middleware answers, hands over to the next stage, or throws.\<close>

datatype step = Respond response | Next | Throws string

subsection \<open>Conversions\<close>

fun ToString :: "builtins \<Rightarrow> jsval \<Rightarrow> string" where
  "ToString js JUndefined = ''undefined''"
| "ToString js JNull = ''null''"
| "ToString js (JBool b) = (if b then ''true'' else ''false'')"
| "ToString js (JStr s) = s"
| "ToString js v = OtherToString js v"

fun ToNumber :: "builtins \<Rightarrow> jsval \<Rightarrow> jsnum" where
  "ToNumber js JUndefined = NaN"
| "ToNumber js JNull = Fin 0"
| "ToNumber js (JBool b) = Fin (if b then 1 else 0)"
| "ToNumber js (JNum n) = n"
| "ToNumber js (JStr s) = StringToNumber js s"
| "ToNumber js (JDate t) = (case t of None \<Rightarrow> NaN | Some tv \<Rightarrow> Fin (of_int tv))"
| "ToNumber js v = StringToNumber js (OtherToString js v)"

text \<open>
  The operator \<^verbatim>\<open>+\<close>: when one operand is a string, or an object (whose primitive value
  is a string), the result is the concatenation; otherwise the numeric sum.
\<close>

fun to_primitive_is_string :: "jsval \<Rightarrow> bool" where
  "to_primitive_is_string (JStr _) = True"
| "to_primitive_is_string (JArr _) = True"
| "to_primitive_is_string (JObj _) = True"
| "to_primitive_is_string (JDate _) = True"
| "to_primitive_is_string _ = False"

definition js_plus :: "builtins \<Rightarrow> jsval \<Rightarrow> jsval \<Rightarrow> jsval" where
  "js_plus js a b =
     (if to_primitive_is_string a \<or> to_primitive_is_string b
      then JStr (ToString js a @ ToString js b)
      else JNum (num_add (ToNumber js a) (ToNumber js b)))"

text \<open>\<^verbatim>\<open>v > 0\<close> and \<^verbatim>\<open>v <= 0\<close> against the number zero.\<close>

definition js_gt_zero :: "builtins \<Rightarrow> jsval \<Rightarrow> bool" where
  "js_gt_zero js v = num_gt (ToNumber js v) (Fin 0)"

definition js_le_zero :: "builtins \<Rightarrow> jsval \<Rightarrow> bool" where
  "js_le_zero js v = num_le (ToNumber js v) (Fin 0)"

subsection \<open>Dates\<close>

text \<open>
  The time functions of ECMAScript on integer time values, as \<^verbatim>\<open>Date.prototype.getDate\<close>
  and \<^verbatim>\<open>Date.prototype.setDate\<close> use them.
\<close>

definition msPerDay :: int where
  "msPerDay = 86400000"

definition Day :: "int \<Rightarrow> int" where
  "Day t = t div msPerDay"

definition TimeWithinDay :: "int \<Rightarrow> int" where
  "TimeWithinDay t = t mod msPerDay"

definition DaysInYear :: "int \<Rightarrow> int" where
  "DaysInYear y =
     (if y mod 4 \<noteq> 0 then 365
      else if y mod 100 \<noteq> 0 then 366
      else if y mod 400 \<noteq> 0 then 365
      else 366)"

definition DayFromYear :: "int \<Rightarrow> int" where
  "DayFromYear y =
     365 * (y - 1970) + (y - 1969) div 4 - (y - 1901) div 100 + (y - 1601) div 400"

text \<open>
  The year of a time value is the largest \<open>y\<close> whose first day is not after it: an
  estimate from the mean length of a year, corrected by at most one.
\<close>

definition YearFromTime :: "int \<Rightarrow> int" where
  "YearFromTime t =
     (let d = Day t;
          y = 1970 + (d * 400) div 146097
      in if d < DayFromYear y then y - 1
         else if DayFromYear (y + 1) \<le> d then y + 1
         else y)"

definition InLeapYear :: "int \<Rightarrow> int" where
  "InLeapYear t = (if DaysInYear (YearFromTime t) = 366 then 1 else 0)"

definition DayWithinYear :: "int \<Rightarrow> int" where
  "DayWithinYear t = Day t - DayFromYear (YearFromTime t)"

text \<open>The day within the year on which month \<open>m\<close> (0 to 11) starts.\<close>

definition month_start :: "int \<Rightarrow> int \<Rightarrow> int" where
  "month_start m leap =
     (if m = 0 then 0
      else if m = 1 then 31
      else if m = 2 then 59 + leap
      else if m = 3 then 90 + leap
      else if m = 4 then 120 + leap
      else if m = 5 then 151 + leap
      else if m = 6 then 181 + leap
      else if m = 7 then 212 + leap
      else if m = 8 then 243 + leap
      else if m = 9 then 273 + leap
      else if m = 10 then 304 + leap
      else 334 + leap)"

definition MonthFromTime :: "int \<Rightarrow> int" where
  "MonthFromTime t =
     (let d = DayWithinYear t; leap = InLeapYear t
      in if d < 31 then 0
         else if d < 59 + leap then 1
         else if d < 90 + leap then 2
         else if d < 120 + leap then 3
         else if d < 151 + leap then 4
         else if d < 181 + leap then 5
         else if d < 212 + leap then 6
         else if d < 243 + leap then 7
         else if d < 273 + leap then 8
         else if d < 304 + leap then 9
         else if d < 334 + leap then 10
         else 11)"

definition DateFromTime :: "int \<Rightarrow> int" where
  "DateFromTime t = DayWithinYear t - month_start (MonthFromTime t) (InLeapYear t) + 1"

text \<open>ToIntegerOrInfinity on a finite number: truncation towards zero.\<close>

definition ToInteger :: "real \<Rightarrow> int" where
  "ToInteger r = (if 0 \<le> r then \<lfloor>r\<rfloor> else \<lceil>r\<rceil>)"

text \<open>
  \<open>MakeDay year month date\<close>: the day number of the first day of the month, plus the
  date, minus one; not a number when the date is not finite.
\<close>

definition MakeDay :: "int \<Rightarrow> int \<Rightarrow> jsnum \<Rightarrow> int option" where
  "MakeDay year month date =
     (case date of
        Fin r \<Rightarrow>
          (let ym = year + month div 12;
               mn = month mod 12;
               first = DayFromYear ym + month_start mn (if DaysInYear ym = 366 then 1 else 0)
           in Some (first + ToInteger r - 1))
      | _ \<Rightarrow> None)"

definition MakeDate :: "int \<Rightarrow> int \<Rightarrow> int" where
  "MakeDate day time = day * msPerDay + time"

definition TimeClip :: "int \<Rightarrow> int option" where
  "TimeClip t = (if \<bar>t\<bar> > 8640000000000000 then None else Some t)"

definition LocalTime :: "builtins \<Rightarrow> int \<Rightarrow> int" where
  "LocalTime js t = t + LocalTZA js t True"

definition UTC :: "builtins \<Rightarrow> int \<Rightarrow> int" where
  "UTC js t = t - LocalTZA js t False"

definition getDate :: "builtins \<Rightarrow> int option \<Rightarrow> jsnum" where
  "getDate js tv =
     (case tv of
        None \<Rightarrow> NaN
      | Some t \<Rightarrow> Fin (of_int (DateFromTime (LocalTime js t))))"

definition setDate :: "builtins \<Rightarrow> int option \<Rightarrow> jsval \<Rightarrow> int option" where
  "setDate js tv date =
     (let dt = ToNumber js date
      in case tv of
           None \<Rightarrow> None
         | Some t0 \<Rightarrow>
             (let t = LocalTime js t0
              in case MakeDay (YearFromTime t) (MonthFromTime t) dt of
                   None \<Rightarrow> None
                 | Some day \<Rightarrow> TimeClip (UTC js (MakeDate day (TimeWithinDay t)))))"

section \<open>The IP allow-list middleware\<close>

text \<open>
  \<^verbatim>\<open>ipWhitelistMiddleware\<close>: the client address is \<^verbatim>\<open>req.ip || req.connection.remoteAddress\<close>;
  a disabled feature answers 403; an address missing from a non-empty allow-list is
  logged and answered 403; otherwise the next stage runs.
\<close>

definition clientIp :: "request \<Rightarrow> string option" where
  "clientIp req = (if truthy_str (req_ip req) then req_ip req else req_remoteAddress req)"

definition array_includes :: "string list \<Rightarrow> string option \<Rightarrow> bool" where
  "array_includes xs v = (case v of None \<Rightarrow> False | Some a \<Rightarrow> a \<in> set xs)"

definition template_str :: "string option \<Rightarrow> string" where
  "template_str v = (case v of None \<Rightarrow> ''undefined'' | Some a \<Rightarrow> a)"

definition ipWhitelistMiddleware :: "config \<Rightarrow> request \<Rightarrow> step \<times> event list" where
  "ipWhitelistMiddleware cfg req =
     (case publicApi cfg of
        None \<Rightarrow> (Respond (403, Failure ''Public API is disabled''), [])
      | Some api \<Rightarrow>
          if \<not> enabled api then (Respond (403, Failure ''Public API is disabled''), [])
          else
            (let allowed = (case allowedIPs api of None \<Rightarrow> [] | Some l \<Rightarrow> l)
             in if length allowed > 0 \<and> \<not> array_includes allowed (clientIp req)
                then (Respond (403, Failure ''IP not allowed''),
                      [LogWarn (''Unauthorized IP access attempt: '' @ template_str (clientIp req))])
                else (Next, [])))"

section \<open>The signature middleware\<close>

text \<open>
  \<^verbatim>\<open>signatureMiddleware\<close>, with \<open>now\<close> the value of \<^verbatim>\<open>Date.now()\<close>. Both headers must be
  present and non-empty; the timestamp must not be more than 300000 ms away from
  \<open>now\<close>; the signature must be \<^verbatim>\<open>sha256=\<close> followed by the hex HMAC of the serialized
  body and the timestamp string. \<^verbatim>\<open>JSON.stringify(undefined)\<close> is \<^verbatim>\<open>undefined\<close>, which the
  concatenation turns into the text \<^verbatim>\<open>undefined\<close>; \<^verbatim>\<open>createHmac\<close> throws on a key that is
  undefined.
\<close>

definition timestamp_rejected :: "int \<Rightarrow> string \<Rightarrow> bool" where
  "timestamp_rejected now timestamp =
     num_gt (num_abs (num_sub (Fin (of_int now)) (parseInt timestamp))) (Fin 300000)"

definition signed_payload :: "builtins \<Rightarrow> jsval \<Rightarrow> string \<Rightarrow> string" where
  "signed_payload js body timestamp =
     (case body of JUndefined \<Rightarrow> ''undefined'' | _ \<Rightarrow> JSON_stringify js body) @ timestamp"

definition signatureMiddleware ::
  "builtins \<Rightarrow> config \<Rightarrow> int \<Rightarrow> request \<Rightarrow> step \<times> event list" where
  "signatureMiddleware js cfg now req =
     (let signature = req_headers req ''x-signature'';
          timestamp = req_headers req ''x-timestamp''
      in if \<not> truthy_str signature \<or> \<not> truthy_str timestamp
         then (Respond (401, Failure ''Missing signature or timestamp''), [])
         else if timestamp_rejected now (the timestamp)
         then (Respond (401, Failure ''Request timestamp too old or invalid''), [])
         else
           (case publicApi cfg of
              None \<Rightarrow> (Throws ''TypeError'', [])
            | Some api \<Rightarrow>
                (case secret api of
                   None \<Rightarrow> (Throws ''TypeError'', [])
                 | Some key \<Rightarrow>
                     (let payload = signed_payload js (req_body req) (the timestamp);
                          expectedSignature = hmac_sha256_hex js key payload
                      in if the signature \<noteq> ''sha256='' @ expectedSignature
                         then (Respond (401, Failure ''Invalid signature''),
                               [LogWarn ''Invalid signature in public API request''])
                         else (Next, [])))))"

section \<open>The handler of \<^verbatim>\<open>POST /api/generate-key\<close>\<close>

text \<open>
  Destructuring \<^verbatim>\<open>req.body\<close> throws a TypeError on \<^verbatim>\<open>undefined\<close> and \<^verbatim>\<open>null\<close>; on an
  object it reads the named properties (a missing one is \<^verbatim>\<open>undefined\<close>); any other
  value has none of them. A default applies to \<^verbatim>\<open>undefined\<close> only.
\<close>

definition destructure :: "jsval \<Rightarrow> (string \<Rightarrow> jsval) option" where
  "destructure body =
     (case body of
        JUndefined \<Rightarrow> None
      | JNull \<Rightarrow> None
      | JObj props \<Rightarrow> Some (\<lambda>k. case map_of props k of None \<Rightarrow> JUndefined | Some v \<Rightarrow> v)
      | _ \<Rightarrow> Some (\<lambda>k. JUndefined))"

definition with_default :: "jsval \<Rightarrow> jsval \<Rightarrow> jsval" where
  "with_default v d = (if v = JUndefined then d else v)"

text \<open>
  The checks of the parameters, as the handler writes them:
  \<^verbatim>\<open>!name || typeof name !== 'string' || name.trim().length === 0\<close> and, for each limit,
  \<^verbatim>\<open>limit && (typeof limit !== 'number' || limit <= 0)\<close>.
\<close>

definition string_of :: "jsval \<Rightarrow> string" where
  "string_of v = (case v of JStr s \<Rightarrow> s | _ \<Rightarrow> [])"

definition name_invalid :: "jsval \<Rightarrow> bool" where
  "name_invalid name =
     (\<not> truthy name \<or> typeof name \<noteq> ''string'' \<or> length (trim (string_of name)) = 0)"

definition limit_invalid :: "builtins \<Rightarrow> jsval \<Rightarrow> bool" where
  "limit_invalid js limit =
     (truthy limit \<and> (typeof limit \<noteq> ''number'' \<or> js_le_zero js limit))"

text \<open>
  The expiry: \<^verbatim>\<open>null\<close>, unless \<^verbatim>\<open>expirationDays && expirationDays > 0\<close>; then a new
  \<^verbatim>\<open>Date\<close> whose day of the month is set to \<^verbatim>\<open>getDate() + expirationDays\<close>.
\<close>

definition compute_expiresAt :: "builtins \<Rightarrow> int \<Rightarrow> jsval \<Rightarrow> jsval" where
  "compute_expiresAt js now expirationDays =
     (if truthy expirationDays \<and> js_gt_zero js expirationDays
      then JDate (setDate js (Some now)
                    (js_plus js (JNum (getDate js (Some now))) expirationDays))
      else JNull)"

text \<open>
  \<^verbatim>\<open>description?.trim() || ''\<close>: empty for \<^verbatim>\<open>undefined\<close> and \<^verbatim>\<open>null\<close>, the trimmed text
  for a string, and a TypeError (\<open>None\<close>) for any other value, which has no \<^verbatim>\<open>trim\<close>.
\<close>

definition trim_description :: "jsval \<Rightarrow> string option" where
  "trim_description description =
     (case description of
        JUndefined \<Rightarrow> Some []
      | JNull \<Rightarrow> Some []
      | JStr s \<Rightarrow> Some (trim s)
      | _ \<Rightarrow> None)"

definition keyPrefix :: "string \<Rightarrow> string" where
  "keyPrefix apiKey = take 8 apiKey @ ''...''"

text \<open>
  \<^verbatim>\<open>sendApiKeyCreatedNotification\<close>: the event is sent; a failure is logged and thrown
  again.
\<close>

definition notification_payload ::
  "services \<Rightarrow> int \<Rightarrow> string \<Rightarrow> apiKeyResult \<Rightarrow> jsval \<Rightarrow> notification" where
  "notification_payload svc now apiKey keyInfo feishuWebhook =
     \<lparr> n_apiKeyId = r_id keyInfo,
       n_apiKeyName = r_name keyInfo,
       n_apiKey = apiKey,
       n_keyPrefix = keyPrefix apiKey,
       n_description = r_description keyInfo,
       n_tokenLimit = r_tokenLimit keyInfo,
       n_dailyCostLimit = r_dailyCostLimit keyInfo,
       n_monthlyCostLimit = r_monthlyCostLimit keyInfo,
       n_expiresAt = r_expiresAt keyInfo,
       n_createdAt = r_createdAt keyInfo,
       n_timestamp = getISOStringWithTimezone svc now,
       n_customWebhook = feishuWebhook \<rparr>"

definition sendApiKeyCreatedNotification ::
  "builtins \<Rightarrow> services \<Rightarrow> int \<Rightarrow> string \<Rightarrow> apiKeyResult \<Rightarrow> jsval \<Rightarrow> unit completion \<times> event list" where
  "sendApiKeyCreatedNotification js svc now apiKey keyInfo feishuWebhook =
     (let payload = notification_payload svc now apiKey keyInfo feishuWebhook
      in case sendNotification svc ''apiKeyCreated'' payload of
           Resolves _ \<Rightarrow>
             (Resolves (),
              [Notify ''apiKeyCreated'' payload,
               LogInfo (''Sent Feishu notification for API key creation: '' @ ToString js (r_id keyInfo))])
         | Rejects e \<Rightarrow>
             (Rejects e,
              [Notify ''apiKeyCreated'' payload,
               LogError ''Failed to send API key creation notification:'']))"

text \<open>What the outer \<^verbatim>\<open>catch\<close> of the handler does with anything thrown inside.\<close>

definition internal_error :: "event list \<Rightarrow> response \<times> event list" where
  "internal_error before =
     ((500, Failure ''Internal server error''),
      before @ [LogError ''Error in public API generate-key:''])"

text \<open>The success response: the metadata of the issued key, the prefix, the full key.\<close>

definition success_response :: "string \<Rightarrow> apiKeyResult \<Rightarrow> response" where
  "success_response apiKey keyInfo =
     (200,
      Success
        \<lparr> d_id = r_id keyInfo,
          d_name = r_name keyInfo,
          d_description = r_description keyInfo,
          d_keyPrefix = keyPrefix apiKey,
          d_tokenLimit = r_tokenLimit keyInfo,
          d_dailyCostLimit = r_dailyCostLimit keyInfo,
          d_monthlyCostLimit = r_monthlyCostLimit keyInfo,
          d_expiresAt = r_expiresAt keyInfo,
          d_createdAt = r_createdAt keyInfo,
          d_status = r_status keyInfo \<rparr>
        apiKey)"

text \<open>
  The options of the issuance call: the trimmed name and description, the limits as
  they came, the computed expiry, and the fixed marks of the creation channel.
\<close>

definition apiKeyOptions_of ::
  "builtins \<Rightarrow> int \<Rightarrow> (string \<Rightarrow> jsval) \<Rightarrow> string \<Rightarrow> apiKeyOptions" where
  "apiKeyOptions_of js now field desc =
     \<lparr> o_name = trim (string_of (field ''name'')),
       o_description = desc,
       o_tokenLimit = field ''tokenLimit'',
       o_expiresAt =
         compute_expiresAt js now (with_default (field ''expirationDays'') (JNum (Fin 30))),
       o_dailyCostLimit = field ''dailyCostLimit'',
       o_monthlyCostLimit = field ''monthlyCostLimit'',
       o_createdBy = ''public-api'',
       o_activationMode = ''immediate'' \<rparr>"

text \<open>
  The notification step: skipped unless \<^verbatim>\<open>notifyFeishu\<close> is truthy; what the
  notification throws is caught and logged.
\<close>

definition notify_step ::
  "builtins \<Rightarrow> services \<Rightarrow> int \<Rightarrow> jsval \<Rightarrow> string \<Rightarrow> apiKeyResult \<Rightarrow> jsval \<Rightarrow> event list" where
  "notify_step js svc now notifyFeishu apiKey keyInfo feishuWebhook =
     (if truthy notifyFeishu
      then (case sendApiKeyCreatedNotification js svc now apiKey keyInfo feishuWebhook of
              (Resolves _, evs) \<Rightarrow> evs
            | (Rejects notifyError, evs) \<Rightarrow>
                evs @ [LogError ''Failed to send Feishu notification for API key creation:''])
      else [])"

text \<open>
  The part of the handler after the validation: the options are built, the key is
  issued, the notification is attempted, the response is shaped. \<open>now\<close> is the time of
  \<^verbatim>\<open>new Date()\<close> for the expiry, \<open>now_notify\<close> the one of the notification.
\<close>

definition issue_and_respond ::
  "builtins \<Rightarrow> services \<Rightarrow> int \<Rightarrow> int \<Rightarrow> (string \<Rightarrow> jsval) \<Rightarrow> response \<times> event list" where
  "issue_and_respond js svc now now_notify field =
     (case trim_description (field ''description'') of
        None \<Rightarrow> internal_error []
      | Some desc \<Rightarrow>
          (let apiKeyOptions = apiKeyOptions_of js now field desc
           in case generateApiKey svc apiKeyOptions of
                Rejects e \<Rightarrow> internal_error [Issue apiKeyOptions]
              | Resolves None \<Rightarrow>
                  ((500, Failure ''Failed to generate API key''), [Issue apiKeyOptions])
              | Resolves (Some apiKeyResult) \<Rightarrow>
                  if \<not> truthy_str (r_apiKey apiKeyResult)
                  then ((500, Failure ''Failed to generate API key''), [Issue apiKeyOptions])
                  else
                    (let apiKey = the (r_apiKey apiKeyResult);
                         keyInfo = apiKeyResult
                     in (success_response apiKey keyInfo,
                         [Issue apiKeyOptions,
                          LogInfo (''Public API generated new API key: '' @ ToString js (r_id keyInfo))]
                         @ notify_step js svc now_notify
                             (with_default (field ''notifyFeishu'') (JBool True))
                             apiKey keyInfo (field ''feishuWebhook'')))))"

definition generate_key_handler ::
  "builtins \<Rightarrow> services \<Rightarrow> int \<Rightarrow> int \<Rightarrow> jsval \<Rightarrow> response \<times> event list" where
  "generate_key_handler js svc now now_notify body =
     (case destructure body of
        None \<Rightarrow> internal_error []
      | Some field \<Rightarrow>
          if name_invalid (field ''name'')
          then ((400, Failure ''Name is required and must be a non-empty string''), [])
          else if limit_invalid js (field ''tokenLimit'')
          then ((400, Failure ''Token limit must be a positive number''), [])
          else if limit_invalid js (field ''dailyCostLimit'')
          then ((400, Failure ''Daily cost limit must be a positive number''), [])
          else if limit_invalid js (field ''monthlyCostLimit'')
          then ((400, Failure ''Monthly cost limit must be a positive number''), [])
          else issue_and_respond js svc now now_notify field)"

section \<open>The route\<close>

text \<open>
  \<^verbatim>\<open>router.post('/api/generate-key', ipWhitelistMiddleware, signatureMiddleware, handler)\<close>:
  each stage runs only when the one before called \<^verbatim>\<open>next()\<close>. The clock is read three
  times: by the signature check, for the expiry, and for the notification.
\<close>

record clock =
  at_verify :: int
  at_expiry :: int
  at_notify :: int

definition generate_key_route ::
  "builtins \<Rightarrow> services \<Rightarrow> config \<Rightarrow> clock \<Rightarrow> request \<Rightarrow> step \<times> event list" where
  "generate_key_route js svc cfg clk req =
     (case ipWhitelistMiddleware cfg req of
        (Next, ev1) \<Rightarrow>
          (case signatureMiddleware js cfg (at_verify clk) req of
             (Next, ev2) \<Rightarrow>
               (case generate_key_handler js svc (at_expiry clk) (at_notify clk) (req_body req) of
                  (res, ev3) \<Rightarrow> (Respond res, ev1 @ ev2 @ ev3))
           | (s, ev2) \<Rightarrow> (s, ev1 @ ev2))
      | (s, ev1) \<Rightarrow> (s, ev1))"

text \<open>The calls of the issuance service among the events of a request.\<close>

fun is_Issue :: "event \<Rightarrow> bool" where
  "is_Issue (Issue _) = True"
| "is_Issue _ = False"

definition issue_calls :: "event list \<Rightarrow> event list" where
  "issue_calls evs = filter is_Issue evs"


section \<open>Notions of the specification\<close>

text \<open>\<^verbatim>\<open>config.publicApi?.enabled\<close>: the feature flag, off when the section is missing.\<close>

definition publicApi_enabled :: "config \<Rightarrow> bool" where
  "publicApi_enabled cfg = (case publicApi cfg of None \<Rightarrow> False | Some api \<Rightarrow> enabled api)"

text \<open>
  The specification compares the digest with the signature header stripped of its
  mandatory prefix \<^verbatim>\<open>sha256=\<close>: a header without the prefix has no digest.
\<close>

definition strip_sha256_prefix :: "string \<Rightarrow> string option" where
  "strip_sha256_prefix header =
     (if take 7 header = ''sha256='' then Some (drop 7 header) else None)"

text \<open>
  A limit of the specification is either absent or a positive number; a value is
  present when the body has the property.
\<close>

definition positive_number :: "jsval \<Rightarrow> bool" where
  "positive_number v = (case v of JNum n \<Rightarrow> num_gt n (Fin 0) | _ \<Rightarrow> False)"

definition present :: "jsval \<Rightarrow> bool" where
  "present v = (v \<noteq> JUndefined)"

definition truthy_not_positive :: "jsval \<Rightarrow> bool" where
  "truthy_not_positive v = (truthy v \<and> \<not> positive_number v)"

text \<open>A text occurs in another when it is a prefix of one of its suffixes.\<close>

fun occurs_in :: "string \<Rightarrow> string \<Rightarrow> bool" where
  "occurs_in k [] = (k = [])"
| "occurs_in k (c # s) = (take (length k) (c # s) = k \<or> occurs_in k s)"

text \<open>All four checks of the handler let the request through.\<close>

definition validation_passes :: "builtins \<Rightarrow> (string \<Rightarrow> jsval) \<Rightarrow> bool" where
  "validation_passes js field =
     (\<not> name_invalid (field ''name'')
      \<and> \<not> limit_invalid js (field ''tokenLimit'')
      \<and> \<not> limit_invalid js (field ''dailyCostLimit'')
      \<and> \<not> limit_invalid js (field ''monthlyCostLimit''))"

section \<open>Fixtures for closed examples\<close>

text \<open>
  Stand-ins for the platform and the services, and the configuration and requests of
  \<^verbatim>\<open>test-public-api.js\<close>. The stand-in digest is a fixed text; the stand-in issuance
  returns the metadata it was given with a fixed key.
\<close>

definition stub_builtins :: builtins where
  "stub_builtins =
     \<lparr> hmac_sha256_hex = (\<lambda>key data. ''5f2c''),
       JSON_stringify = (\<lambda>v. ''{}''),
       OtherToString = (\<lambda>v. ''[object Object]''),
       StringToNumber = (\<lambda>s. NaN),
       LocalTZA = (\<lambda>t isUTC. 0) \<rparr>"

definition stub_result :: "apiKeyOptions \<Rightarrow> apiKeyResult" where
  "stub_result opts =
     \<lparr> r_apiKey = Some ''cr_0123456789abcdef'',
       r_id = JStr ''key-1'',
       r_name = JStr (o_name opts),
       r_description = JStr (o_description opts),
       r_tokenLimit = o_tokenLimit opts,
       r_dailyCostLimit = o_dailyCostLimit opts,
       r_monthlyCostLimit = o_monthlyCostLimit opts,
       r_expiresAt = o_expiresAt opts,
       r_createdAt = JStr ''2023-11-14T22:13:20.000Z'',
       r_status = JStr ''active'' \<rparr>"

definition stub_services :: services where
  "stub_services =
     \<lparr> generateApiKey = (\<lambda>opts. Resolves (Some (stub_result opts))),
       sendNotification = (\<lambda>event data. Resolves ()),
       getISOStringWithTimezone = (\<lambda>t. ''2023-11-14T22:13:20.000+00:00'') \<rparr>"


definition test_config :: config where
  "test_config =
     \<lparr> publicApi = Some \<lparr> enabled = True, allowedIPs = None,
                           secret = Some ''test-secret-key-for-public-api'' \<rparr> \<rparr>"

definition test_clock :: clock where
  "test_clock =
     \<lparr> at_verify = 1700000000000, at_expiry = 1700000000000, at_notify = 1700000000000 \<rparr>"

definition test_request :: "string \<Rightarrow> string \<Rightarrow> jsval \<Rightarrow> request" where
  "test_request signature timestamp body =
     \<lparr> req_ip = Some ''127.0.0.1'', req_remoteAddress = Some ''127.0.0.1'',
       req_headers = [''x-signature'' \<mapsto> signature, ''x-timestamp'' \<mapsto> timestamp],
       req_body = body \<rparr>"


text \<open>
  A stand-in platform whose digest shows the key and the text it was given, so that a
  closed example shows what was signed.
\<close>

definition echo_builtins :: builtins where
  "echo_builtins =
     \<lparr> hmac_sha256_hex = (\<lambda>key data. ''hmac('' @ key @ '','' @ data @ '')''),
       JSON_stringify = (\<lambda>v. if v = JObj [] then ''{}'' else ''null''),
       OtherToString = (\<lambda>v. ''[object Object]''),
       StringToNumber = (\<lambda>s. NaN),
       LocalTZA = (\<lambda>t isUTC. 0) \<rparr>"

text \<open>
  A platform in the zone of New York in 2024: five hours behind UTC until 10 March,
  07:00 UTC, four hours behind until 3 November, 06:00 UTC, five hours behind after.
  A local time that the clocks skip or repeat is read with the offset before the
  change, as ECMAScript prescribes.
\<close>

definition new_york_builtins :: builtins where
  "new_york_builtins =
     \<lparr> hmac_sha256_hex = (\<lambda>key data. ''5f2c''),
       JSON_stringify = (\<lambda>v. ''{}''),
       OtherToString = (\<lambda>v. ''[object Object]''),
       StringToNumber = (\<lambda>s. NaN),
       LocalTZA = (\<lambda>t isUTC.
         if isUTC
         then (if 1710054000000 \<le> t \<and> t < 1730613600000 then - 14400000 else - 18000000)
         else (if 1710039600000 \<le> t \<and> t < 1730599200000 then - 14400000 else - 18000000)) \<rparr>"

text \<open>
  An issuance service that returns a key of four characters, and one that returns the
  empty string as the expiry whatever it was given.
\<close>

definition short_key_services :: services where
  "short_key_services =
     \<lparr> generateApiKey = (\<lambda>opts. Resolves (Some ((stub_result opts)\<lparr>r_apiKey := Some ''cr_1''\<rparr>))),
       sendNotification = (\<lambda>event data. Resolves ()),
       getISOStringWithTimezone = (\<lambda>t. ''2023-11-14T22:13:20.000+00:00'') \<rparr>"

definition blank_expiry_services :: services where
  "blank_expiry_services =
     \<lparr> generateApiKey = (\<lambda>opts. Resolves (Some ((stub_result opts)\<lparr>r_expiresAt := JStr []\<rparr>))),
       sendNotification = (\<lambda>event data. Resolves ()),
       getISOStringWithTimezone = (\<lambda>t. ''2023-11-14T22:13:20.000+00:00'') \<rparr>"

text \<open>Two bodies with a valid name: the token limit zero, and the token limit \<^verbatim>\<open>null\<close>.\<close>

definition zero_limit_body :: jsval where
  "zero_limit_body = JObj [(''name'', JStr ''Test API Key''), (''tokenLimit'', JNum (Fin 0))]"

definition null_limit_body :: jsval where
  "null_limit_body = JObj [(''name'', JStr ''Test API Key''), (''tokenLimit'', JNull)]"

section \<open>Properties of the two middlewares\<close>

lemma strip_sha256_prefix_eq:
  "(strip_sha256_prefix header = Some digest) = (header = ''sha256='' @ digest)"
proof
  assume "strip_sha256_prefix header = Some digest"
  then have "take 7 header = ''sha256=''" and "drop 7 header = digest"
    by (auto simp: strip_sha256_prefix_def split: if_splits)
  then show "header = ''sha256='' @ digest"
    using append_take_drop_id [of 7 header] by simp
next
  assume "header = ''sha256='' @ digest"
  then show "strip_sha256_prefix header = Some digest"
    by (simp add: strip_sha256_prefix_def)
qed

lemma gate_passes_silently:
  "ipWhitelistMiddleware cfg req = (Next, ev) \<Longrightarrow> ev = []"
  by (auto simp: ipWhitelistMiddleware_def Let_def split: option.splits if_splits)

lemma route_gate_answer:
  "ipWhitelistMiddleware cfg req = (Respond r, ev) \<Longrightarrow>
   generate_key_route js svc cfg clk req = (Respond r, ev)"
  by (simp add: generate_key_route_def)

lemma route_signature_answer:
  "ipWhitelistMiddleware cfg req = (Next, ev1) \<Longrightarrow>
   signatureMiddleware js cfg (at_verify clk) req = (Respond r, ev2) \<Longrightarrow>
   generate_key_route js svc cfg clk req = (Respond r, ev1 @ ev2)"
  by (simp add: generate_key_route_def)

lemma signature_passes_silently:
  "signatureMiddleware js cfg now req = (Next, ev) \<Longrightarrow> ev = []"
  by (auto simp: signatureMiddleware_def Let_def split: option.splits if_splits)

text \<open>The handler runs when both middlewares passed, and the route answers what it answers.\<close>

lemma route_handler_answer:
  assumes "ipWhitelistMiddleware cfg req = (Next, ev1)"
    and "signatureMiddleware js cfg (at_verify clk) req = (Next, ev2)"
  shows "generate_key_route js svc cfg clk req =
     (Respond (fst (generate_key_handler js svc (at_expiry clk) (at_notify clk) (req_body req))),
      snd (generate_key_handler js svc (at_expiry clk) (at_notify clk) (req_body req)))"
proof -
  have "ev1 = []"
    using assms(1) by (rule gate_passes_silently)
  moreover have "ev2 = []"
    using assms(2) by (rule signature_passes_silently)
  ultimately show ?thesis
    using assms by (simp add: generate_key_route_def split: prod.splits)
qed

lemma parseInt_empty: "parseInt [] = NaN"
  by (simp add: parseInt_def)

lemma timestamp_rejected_int:
  assumes p: "parseInt ts = Fin (of_int t)"
  shows "timestamp_rejected now ts = (300000 < \<bar>now - t\<bar>)"
proof -
  have "timestamp_rejected now ts = ((300000::real) < \<bar>of_int now - of_int t\<bar>)"
    by (simp add: timestamp_rejected_def p num_gt_def num_sub_def)
  also have "\<dots> = ((of_int (300000::int) :: real) < of_int \<bar>now - t\<bar>)"
    by simp
  also have "\<dots> = (300000 < \<bar>now - t\<bar>)"
    by (simp only: of_int_less_iff)
  finally show ?thesis .
qed

lemma timestamp_rejected_NaN:
  "parseInt ts = NaN \<Longrightarrow> \<not> timestamp_rejected now ts"
  by (simp add: timestamp_rejected_def num_gt_def num_sub_def)

lemma signature_stage:
  assumes "req_headers req ''x-signature'' = Some sg" "sg \<noteq> []"
    and "req_headers req ''x-timestamp'' = Some ts" "ts \<noteq> []"
    and "\<not> timestamp_rejected now ts"
    and "publicApi cfg = Some api" "secret api = Some key"
  shows "signatureMiddleware js cfg now req =
     (if sg = ''sha256='' @ hmac_sha256_hex js key (signed_payload js (req_body req) ts)
      then (Next, [])
      else (Respond (401, Failure ''Invalid signature''),
            [LogWarn ''Invalid signature in public API request'']))"
  using assms by (simp add: signatureMiddleware_def truthy_str_def Let_def)

lemma stale_stage:
  assumes "req_headers req ''x-timestamp'' = Some ts" "ts \<noteq> []"
    and "timestamp_rejected now ts"
  shows "signatureMiddleware js cfg now req =
     (if truthy_str (req_headers req ''x-signature'')
      then (Respond (401, Failure ''Request timestamp too old or invalid''), [])
      else (Respond (401, Failure ''Missing signature or timestamp''), []))"
  using assms by (simp add: signatureMiddleware_def truthy_str_def Let_def)

lemma fresh_stage:
  assumes "req_headers req ''x-timestamp'' = Some ts" "\<not> timestamp_rejected now ts"
  shows "fst (signatureMiddleware js cfg now req)
           \<noteq> Respond (401, Failure ''Request timestamp too old or invalid'')"
  using assms
  by (simp add: signatureMiddleware_def Let_def split: option.splits)

lemma test_gate_passes:
  "ipWhitelistMiddleware test_config (test_request sg ts body) = (Next, [])"
  by (simp add: ipWhitelistMiddleware_def test_config_def)

lemma parseInt_test_timestamp: "parseInt ''1700000000000'' = Fin (of_int 1700000000000)"
  by (simp add: parseInt_def is_white_space_def digit_of_def digits_value_def)

lemma parseInt_old_timestamp: "parseInt ''1699999000000'' = Fin (of_int 1699999000000)"
  by (simp add: parseInt_def is_white_space_def digit_of_def digits_value_def)

lemma parseInt_not_a_number: "parseInt ''not-a-number'' = NaN"
  by (simp add: parseInt_def is_white_space_def digit_of_def digits_value_def)

lemma test_timestamp_fresh:
  "\<not> timestamp_rejected 1700000000000 ''1700000000000''"
  using timestamp_rejected_int [OF parseInt_test_timestamp, of 1700000000000] by simp

text \<open>
  C1. A request that passed the IP gate, carries both headers and a fresh timestamp,
  with the shared secret configured. The signed text is the serialization of the body
  by \<^verbatim>\<open>JSON.stringify\<close> (the text \<^verbatim>\<open>undefined\<close> for a body that is undefined) followed
  directly by the timestamp string as the header gives it. When the hex HMAC of that
  text under the secret differs from the signature header stripped of its mandatory
  prefix \<^verbatim>\<open>sha256=\<close> (a header without the prefix has nothing to compare), the route
  answers 401 \<^verbatim>\<open>Invalid signature\<close>, logs the fact and never calls the issuance
  service; when it is equal, the signature middleware hands over to the next stage.
\<close>

theorem invalid_signature_rejected:
  assumes gate: "ipWhitelistMiddleware cfg req = (Next, ev)"
    and sg: "req_headers req ''x-signature'' = Some sg" "sg \<noteq> []"
    and ts: "req_headers req ''x-timestamp'' = Some ts" "ts \<noteq> []"
    and fresh: "\<not> timestamp_rejected (at_verify clk) ts"
    and key: "publicApi cfg = Some api" "secret api = Some key"
  shows "(strip_sha256_prefix sg
            \<noteq> Some (hmac_sha256_hex js key
                      ((if req_body req = JUndefined then ''undefined''
                        else JSON_stringify js (req_body req)) @ ts)) \<longrightarrow>
          generate_key_route js svc cfg clk req =
            (Respond (401, Failure ''Invalid signature''),
             [LogWarn ''Invalid signature in public API request'']) \<and>
          issue_calls (snd (generate_key_route js svc cfg clk req)) = [])
       \<and> (strip_sha256_prefix sg
            = Some (hmac_sha256_hex js key
                      ((if req_body req = JUndefined then ''undefined''
                        else JSON_stringify js (req_body req)) @ ts)) \<longrightarrow>
          signatureMiddleware js cfg (at_verify clk) req = (Next, []))"
proof -
  let ?digest = "hmac_sha256_hex js key
      ((if req_body req = JUndefined then ''undefined''
        else JSON_stringify js (req_body req)) @ ts)"
  have p: "signed_payload js (req_body req) ts
      = (if req_body req = JUndefined then ''undefined''
         else JSON_stringify js (req_body req)) @ ts"
    by (cases "req_body req") (simp_all add: signed_payload_def)
  have stage: "signatureMiddleware js cfg (at_verify clk) req =
     (if sg = ''sha256='' @ ?digest then (Next, [])
      else (Respond (401, Failure ''Invalid signature''),
            [LogWarn ''Invalid signature in public API request'']))"
    using signature_stage [OF sg ts fresh key, of js] by (simp only: p)
  have ev: "ev = []"
    using gate by (rule gate_passes_silently)
  show ?thesis
  proof (intro conjI impI)
    assume "strip_sha256_prefix sg \<noteq> Some ?digest"
    then have ne: "sg \<noteq> ''sha256='' @ ?digest"
      by (simp add: strip_sha256_prefix_eq)
    with stage have "signatureMiddleware js cfg (at_verify clk) req =
        (Respond (401, Failure ''Invalid signature''),
         [LogWarn ''Invalid signature in public API request''])"
      by simp
    from route_signature_answer [OF gate this]
    show r: "generate_key_route js svc cfg clk req =
        (Respond (401, Failure ''Invalid signature''),
         [LogWarn ''Invalid signature in public API request''])"
      by (simp add: ev)
    show "issue_calls (snd (generate_key_route js svc cfg clk req)) = []"
      by (simp add: r issue_calls_def)
  next
    assume "strip_sha256_prefix sg = Some ?digest"
    then have "sg = ''sha256='' @ ?digest"
      by (simp add: strip_sha256_prefix_eq)
    with stage show "signatureMiddleware js cfg (at_verify clk) req = (Next, [])"
      by simp
  qed
qed

theorem invalid_signature_rejected_witness:
  "generate_key_route echo_builtins stub_services test_config test_clock
       (test_request ''sha256=invalid-signature'' ''1700000000000'' (JObj []))
     = (Respond (401, Failure ''Invalid signature''),
        [LogWarn ''Invalid signature in public API request''])
   \<and> generate_key_route echo_builtins stub_services test_config test_clock
       (test_request ''sha256=hmac(test-secret-key-for-public-api,1700000000000{})''
          ''1700000000000'' (JObj []))
     = (Respond (401, Failure ''Invalid signature''),
        [LogWarn ''Invalid signature in public API request''])
   \<and> signatureMiddleware echo_builtins test_config 1700000000000
       (test_request ''sha256=hmac(test-secret-key-for-public-api,{}1700000000000)''
          ''1700000000000'' (JObj [])) = (Next, [])"
proof -
  have t: "at_verify test_clock = 1700000000000"
    by (simp add: test_clock_def)
  have a: "generate_key_route echo_builtins stub_services test_config test_clock
       (test_request ''sha256=invalid-signature'' ''1700000000000'' (JObj []))
     = (Respond (401, Failure ''Invalid signature''),
        [LogWarn ''Invalid signature in public API request''])"
    using invalid_signature_rejected [of test_config
        "test_request ''sha256=invalid-signature'' ''1700000000000'' (JObj [])" "[]"
        "''sha256=invalid-signature''" "''1700000000000''" test_clock
        "\<lparr> enabled = True, allowedIPs = None, secret = Some ''test-secret-key-for-public-api'' \<rparr>"
        "''test-secret-key-for-public-api''" echo_builtins stub_services]
      test_gate_passes test_timestamp_fresh
    by (simp add: t test_request_def test_config_def echo_builtins_def strip_sha256_prefix_def)
  have b: "generate_key_route echo_builtins stub_services test_config test_clock
       (test_request ''sha256=hmac(test-secret-key-for-public-api,1700000000000{})''
          ''1700000000000'' (JObj []))
     = (Respond (401, Failure ''Invalid signature''),
        [LogWarn ''Invalid signature in public API request''])"
    using invalid_signature_rejected [of test_config
        "test_request ''sha256=hmac(test-secret-key-for-public-api,1700000000000{})''
           ''1700000000000'' (JObj [])" "[]"
        "''sha256=hmac(test-secret-key-for-public-api,1700000000000{})''"
        "''1700000000000''" test_clock
        "\<lparr> enabled = True, allowedIPs = None, secret = Some ''test-secret-key-for-public-api'' \<rparr>"
        "''test-secret-key-for-public-api''" echo_builtins stub_services]
      test_gate_passes test_timestamp_fresh
    by (simp add: t test_request_def test_config_def echo_builtins_def strip_sha256_prefix_def)
  have c: "signatureMiddleware echo_builtins test_config 1700000000000
       (test_request ''sha256=hmac(test-secret-key-for-public-api,{}1700000000000)''
          ''1700000000000'' (JObj [])) = (Next, [])"
    using invalid_signature_rejected [of test_config
        "test_request ''sha256=hmac(test-secret-key-for-public-api,{}1700000000000)''
           ''1700000000000'' (JObj [])" "[]"
        "''sha256=hmac(test-secret-key-for-public-api,{}1700000000000)''"
        "''1700000000000''" test_clock
        "\<lparr> enabled = True, allowedIPs = None, secret = Some ''test-secret-key-for-public-api'' \<rparr>"
        "''test-secret-key-for-public-api''" echo_builtins stub_services]
      test_gate_passes test_timestamp_fresh
    by (simp add: t test_request_def test_config_def echo_builtins_def strip_sha256_prefix_def)
  from a b c show ?thesis by blast
qed

text \<open>
  C2. A request that reaches the signature middleware with a timestamp header that
  \<^verbatim>\<open>parseInt\<close> reads as the integer \<open>t\<close>: when \<open>t\<close> is more than 300000 ms away from
  \<open>now\<close>, in the past or in the future, the answer is a 401, and with a signature
  header present it is \<^verbatim>\<open>Request timestamp too old or invalid\<close> whatever the signature,
  the secret and the digest are; the route then answers the same and issues nothing.
  When \<open>t\<close> is at most 300000 ms away, on either side, the freshness check lets the
  request through.
\<close>

theorem stale_timestamp_rejected:
  assumes ts: "req_headers req ''x-timestamp'' = Some ts"
    and t: "parseInt ts = Fin (of_int t)"
  shows "(300000 < \<bar>now - t\<bar> \<longrightarrow>
            fst (signatureMiddleware js cfg now req)
              \<in> {Respond (401, Failure ''Request timestamp too old or invalid''),
                  Respond (401, Failure ''Missing signature or timestamp'')}
            \<and> (truthy_str (req_headers req ''x-signature'') \<longrightarrow>
                 signatureMiddleware js cfg now req =
                   (Respond (401, Failure ''Request timestamp too old or invalid''), [])
                 \<and> (\<forall>ev. ipWhitelistMiddleware cfg req = (Next, ev) \<and> at_verify clk = now \<longrightarrow>
                       generate_key_route js svc cfg clk req =
                         (Respond (401, Failure ''Request timestamp too old or invalid''), []))))
       \<and> (\<bar>now - t\<bar> \<le> 300000 \<longrightarrow>
            \<not> timestamp_rejected now ts
            \<and> fst (signatureMiddleware js cfg now req)
                \<noteq> Respond (401, Failure ''Request timestamp too old or invalid''))"
proof -
  have ne: "ts \<noteq> []"
    using t parseInt_empty by auto
  note rej = timestamp_rejected_int [OF t, of now]
  show ?thesis
  proof (intro conjI impI allI)
    assume far: "300000 < \<bar>now - t\<bar>"
    then have stale: "timestamp_rejected now ts"
      by (simp add: rej)
    note st = stale_stage [OF ts ne stale, of js cfg]
    show "fst (signatureMiddleware js cfg now req)
              \<in> {Respond (401, Failure ''Request timestamp too old or invalid''),
                  Respond (401, Failure ''Missing signature or timestamp'')}"
      by (simp add: st)
    assume "truthy_str (req_headers req ''x-signature'')"
    with st show m: "signatureMiddleware js cfg now req =
        (Respond (401, Failure ''Request timestamp too old or invalid''), [])"
      by simp
    fix ev
    assume "ipWhitelistMiddleware cfg req = (Next, ev) \<and> at_verify clk = now"
    then have g: "ipWhitelistMiddleware cfg req = (Next, ev)" and c: "at_verify clk = now"
      by simp_all
    from g have "ev = []"
      by (rule gate_passes_silently)
    with route_signature_answer [OF g, of js clk _ "[]" svc] m c
    show "generate_key_route js svc cfg clk req =
        (Respond (401, Failure ''Request timestamp too old or invalid''), [])"
      by simp
  next
    assume "\<bar>now - t\<bar> \<le> 300000"
    then show f: "\<not> timestamp_rejected now ts"
      by (simp add: rej)
    from fresh_stage [OF ts f]
    show "fst (signatureMiddleware js cfg now req)
        \<noteq> Respond (401, Failure ''Request timestamp too old or invalid'')" .
  qed
qed

theorem stale_timestamp_rejected_witness:
  "generate_key_route stub_builtins stub_services test_config test_clock
       (test_request ''sha256=5f2c'' ''1699999000000'' (JObj []))
     = (Respond (401, Failure ''Request timestamp too old or invalid''), [])
   \<and> \<not> timestamp_rejected 1700000000000 ''1700000000000''"
proof -
  have a: "generate_key_route stub_builtins stub_services test_config test_clock
       (test_request ''sha256=5f2c'' ''1699999000000'' (JObj []))
     = (Respond (401, Failure ''Request timestamp too old or invalid''), [])"
    using stale_timestamp_rejected [of
        "test_request ''sha256=5f2c'' ''1699999000000'' (JObj [])" "''1699999000000''"
        1699999000000 1700000000000 stub_builtins test_config test_clock stub_services]
      parseInt_old_timestamp test_gate_passes
    by (simp add: test_request_def test_clock_def truthy_str_def)
  have b: "\<not> timestamp_rejected 1700000000000 ''1700000000000''"
    using stale_timestamp_rejected [of
        "test_request ''sha256=5f2c'' ''1700000000000'' (JObj [])" "''1700000000000''"
        1700000000000 1700000000000 stub_builtins test_config test_clock stub_services]
      parseInt_test_timestamp
    by (simp add: test_request_def)
  from a b show ?thesis ..
qed

text \<open>
  C3. A timestamp header that is present but that \<^verbatim>\<open>parseInt\<close> reads as NaN is not
  rejected by the freshness check: the comparison with 300000 is false, the answer is
  never \<^verbatim>\<open>Request timestamp too old or invalid\<close>, and with a signature header and a
  secret the middleware goes on to compare the signature.
\<close>

theorem non_numeric_timestamp_passes_freshness:
  assumes ts: "req_headers req ''x-timestamp'' = Some ts" "ts \<noteq> []"
    and nan: "parseInt ts = NaN"
  shows "\<not> timestamp_rejected now ts
       \<and> fst (signatureMiddleware js cfg now req)
           \<noteq> Respond (401, Failure ''Request timestamp too old or invalid'')
       \<and> (\<forall>sg api key.
             req_headers req ''x-signature'' = Some sg \<and> sg \<noteq> []
             \<and> publicApi cfg = Some api \<and> secret api = Some key \<longrightarrow>
             signatureMiddleware js cfg now req =
               (if sg = ''sha256='' @ hmac_sha256_hex js key (signed_payload js (req_body req) ts)
                then (Next, [])
                else (Respond (401, Failure ''Invalid signature''),
                      [LogWarn ''Invalid signature in public API request''])))"
proof -
  have f: "\<not> timestamp_rejected now ts"
    using nan by (rule timestamp_rejected_NaN)
  moreover have "fst (signatureMiddleware js cfg now req)
      \<noteq> Respond (401, Failure ''Request timestamp too old or invalid'')"
    using fresh_stage [OF ts(1) f] .
  moreover have "\<forall>sg api key.
      req_headers req ''x-signature'' = Some sg \<and> sg \<noteq> []
      \<and> publicApi cfg = Some api \<and> secret api = Some key \<longrightarrow>
      signatureMiddleware js cfg now req =
        (if sg = ''sha256='' @ hmac_sha256_hex js key (signed_payload js (req_body req) ts)
         then (Next, [])
         else (Respond (401, Failure ''Invalid signature''),
               [LogWarn ''Invalid signature in public API request'']))"
    using signature_stage [OF _ _ ts f] by blast
  ultimately show ?thesis by blast
qed

theorem non_numeric_timestamp_passes_freshness_witness:
  "\<not> timestamp_rejected 1700000000000 ''not-a-number''
   \<and> signatureMiddleware stub_builtins test_config 1700000000000
       (test_request ''sha256=5f2c'' ''not-a-number'' (JObj [])) = (Next, [])"
  using non_numeric_timestamp_passes_freshness [of
      "test_request ''sha256=5f2c'' ''not-a-number'' (JObj [])" "''not-a-number''"
      1700000000000 stub_builtins test_config]
    parseInt_not_a_number
  by (simp add: test_request_def test_config_def stub_builtins_def)

text \<open>
  C6. With the feature flag off (or the whole section missing from the configuration)
  the route answers 403 \<^verbatim>\<open>Public API is disabled\<close> whatever the address, the headers
  and the body are, and nothing else happens: no log line, no call of a service.
\<close>

theorem feature_disabled_fails_closed:
  "\<not> publicApi_enabled cfg \<Longrightarrow>
   generate_key_route js svc cfg clk req =
     (Respond (403, Failure ''Public API is disabled''), [])"
  by (auto simp: publicApi_enabled_def generate_key_route_def ipWhitelistMiddleware_def
      split: option.splits)

theorem feature_disabled_fails_closed_witness:
  "generate_key_route stub_builtins stub_services
       \<lparr> publicApi = Some \<lparr> enabled = False, allowedIPs = None,
                             secret = Some ''test-secret-key-for-public-api'' \<rparr> \<rparr>
       test_clock (test_request ''sha256=5f2c'' ''1700000000000'' (JObj []))
     = (Respond (403, Failure ''Public API is disabled''), [])"
  using feature_disabled_fails_closed [of
      "\<lparr> publicApi = Some \<lparr> enabled = False, allowedIPs = None,
                             secret = Some ''test-secret-key-for-public-api'' \<rparr> \<rparr>"
      stub_builtins stub_services test_clock
      "test_request ''sha256=5f2c'' ''1700000000000'' (JObj [])"]
  by (simp add: publicApi_enabled_def)

text \<open>
  C7. With the feature on: a client address that is not in a non-empty allow-list is
  answered 403 \<^verbatim>\<open>IP not allowed\<close>, by the middleware and so by the route, and the one
  event is the warning that ends with the address; with an empty or unset allow-list
  every address passes the gate.
\<close>

theorem ip_gate:
  assumes "publicApi cfg = Some api" "enabled api"
  shows "(\<forall>l. allowedIPs api = Some l \<and> l \<noteq> [] \<and> \<not> array_includes l (clientIp req) \<longrightarrow>
            ipWhitelistMiddleware cfg req =
              (Respond (403, Failure ''IP not allowed''),
               [LogWarn (''Unauthorized IP access attempt: '' @ template_str (clientIp req))])
            \<and> generate_key_route js svc cfg clk req =
              (Respond (403, Failure ''IP not allowed''),
               [LogWarn (''Unauthorized IP access attempt: '' @ template_str (clientIp req))]))
       \<and> (allowedIPs api = None \<or> allowedIPs api = Some [] \<longrightarrow>
            ipWhitelistMiddleware cfg req = (Next, []))"
proof (intro conjI allI impI)
  fix l
  assume "allowedIPs api = Some l \<and> l \<noteq> [] \<and> \<not> array_includes l (clientIp req)"
  with assms show d: "ipWhitelistMiddleware cfg req =
      (Respond (403, Failure ''IP not allowed''),
       [LogWarn (''Unauthorized IP access attempt: '' @ template_str (clientIp req))])"
    by (simp add: ipWhitelistMiddleware_def)
  from route_gate_answer [OF d]
  show "generate_key_route js svc cfg clk req =
      (Respond (403, Failure ''IP not allowed''),
       [LogWarn (''Unauthorized IP access attempt: '' @ template_str (clientIp req))])" .
next
  assume "allowedIPs api = None \<or> allowedIPs api = Some []"
  with assms show "ipWhitelistMiddleware cfg req = (Next, [])"
    by (auto simp: ipWhitelistMiddleware_def)
qed

theorem ip_gate_witness:
  "generate_key_route stub_builtins stub_services
       \<lparr> publicApi = Some \<lparr> enabled = True, allowedIPs = Some [''10.0.0.1''],
                             secret = Some ''test-secret-key-for-public-api'' \<rparr> \<rparr>
       test_clock (test_request ''sha256=5f2c'' ''1700000000000'' (JObj []))
     = (Respond (403, Failure ''IP not allowed''),
        [LogWarn ''Unauthorized IP access attempt: 127.0.0.1''])
   \<and> ipWhitelistMiddleware test_config
        (test_request ''sha256=5f2c'' ''1700000000000'' (JObj [])) = (Next, [])"
proof -
  have a: "generate_key_route stub_builtins stub_services
       \<lparr> publicApi = Some \<lparr> enabled = True, allowedIPs = Some [''10.0.0.1''],
                             secret = Some ''test-secret-key-for-public-api'' \<rparr> \<rparr>
       test_clock (test_request ''sha256=5f2c'' ''1700000000000'' (JObj []))
     = (Respond (403, Failure ''IP not allowed''),
        [LogWarn ''Unauthorized IP access attempt: 127.0.0.1''])"
    using ip_gate [of
        "\<lparr> publicApi = Some \<lparr> enabled = True, allowedIPs = Some [''10.0.0.1''],
                               secret = Some ''test-secret-key-for-public-api'' \<rparr> \<rparr>"
        "\<lparr> enabled = True, allowedIPs = Some [''10.0.0.1''],
           secret = Some ''test-secret-key-for-public-api'' \<rparr>"
        "test_request ''sha256=5f2c'' ''1700000000000'' (JObj [])"
        stub_builtins stub_services test_clock]
    by (simp add: test_request_def clientIp_def truthy_str_def array_includes_def
        template_str_def)
  have b: "ipWhitelistMiddleware test_config
        (test_request ''sha256=5f2c'' ''1700000000000'' (JObj [])) = (Next, [])"
    using ip_gate [of test_config
        "\<lparr> enabled = True, allowedIPs = None,
           secret = Some ''test-secret-key-for-public-api'' \<rparr>"
        "test_request ''sha256=5f2c'' ''1700000000000'' (JObj [])"]
    by (simp add: test_config_def)
  from a b show ?thesis ..
qed


section \<open>Properties of the handler\<close>

lemma limit_invalid_num:
  "limit_invalid js (JNum n) = (truthy (JNum n) \<and> \<not> positive_number (JNum n))"
  by (cases n)
    (auto simp: limit_invalid_def positive_number_def js_le_zero_def num_le_def num_gt_def)

lemma limit_invalid_iff:
  "limit_invalid js v = (truthy v \<and> \<not> positive_number v)"
proof (cases v)
  case (JNum n)
  then show ?thesis
    by (simp only: limit_invalid_num)
qed (auto simp: limit_invalid_def positive_number_def)

lemma notification_resolves:
  assumes "sendNotification svc ''apiKeyCreated''
             (notification_payload svc now' k res hook) = Resolves u"
  shows "sendApiKeyCreatedNotification js svc now' k res hook =
     (Resolves (),
      [Notify ''apiKeyCreated'' (notification_payload svc now' k res hook),
       LogInfo (''Sent Feishu notification for API key creation: '' @ ToString js (r_id res))])"
  using assms by (simp add: sendApiKeyCreatedNotification_def)

lemma notification_rejects:
  assumes "sendNotification svc ''apiKeyCreated''
             (notification_payload svc now' k res hook) = Rejects err"
  shows "sendApiKeyCreatedNotification js svc now' k res hook =
     (Rejects err,
      [Notify ''apiKeyCreated'' (notification_payload svc now' k res hook),
       LogError ''Failed to send API key creation notification:''])"
  using assms by (simp add: sendApiKeyCreatedNotification_def)

lemma notify_step_resolves:
  assumes "sendNotification svc ''apiKeyCreated''
             (notification_payload svc now' k res hook) = Resolves u"
  shows "notify_step js svc now' flag k res hook =
     (if truthy flag
      then [Notify ''apiKeyCreated'' (notification_payload svc now' k res hook),
            LogInfo (''Sent Feishu notification for API key creation: '' @ ToString js (r_id res))]
      else [])"
  by (simp add: notify_step_def notification_resolves [OF assms])

lemma notify_step_rejects:
  assumes "sendNotification svc ''apiKeyCreated''
             (notification_payload svc now' k res hook) = Rejects err"
  shows "notify_step js svc now' flag k res hook =
     (if truthy flag
      then [Notify ''apiKeyCreated'' (notification_payload svc now' k res hook),
            LogError ''Failed to send API key creation notification:'',
            LogError ''Failed to send Feishu notification for API key creation:'']
      else [])"
  by (simp add: notify_step_def notification_rejects [OF assms])

lemma issue_calls_notify_step:
  "issue_calls (notify_step js svc now' flag k res hook) = []"
proof (cases "sendNotification svc ''apiKeyCreated'' (notification_payload svc now' k res hook)")
  case (Resolves u)
  then show ?thesis
    by (simp add: notify_step_resolves issue_calls_def)
next
  case (Rejects err)
  then show ?thesis
    by (simp add: notify_step_rejects issue_calls_def)
qed

lemma issue_and_respond_cases:
  assumes "trim_description (field ''description'') = Some desc"
  shows "issue_and_respond js svc now now' field =
     (case generateApiKey svc (apiKeyOptions_of js now field desc) of
        Rejects e \<Rightarrow> internal_error [Issue (apiKeyOptions_of js now field desc)]
      | Resolves None \<Rightarrow>
          ((500, Failure ''Failed to generate API key''),
           [Issue (apiKeyOptions_of js now field desc)])
      | Resolves (Some res) \<Rightarrow>
          if \<not> truthy_str (r_apiKey res)
          then ((500, Failure ''Failed to generate API key''),
                [Issue (apiKeyOptions_of js now field desc)])
          else (success_response (the (r_apiKey res)) res,
                [Issue (apiKeyOptions_of js now field desc),
                 LogInfo (''Public API generated new API key: '' @ ToString js (r_id res))]
                @ notify_step js svc now' (with_default (field ''notifyFeishu'') (JBool True))
                    (the (r_apiKey res)) res (field ''feishuWebhook'')))"
  using assms
  by (simp add: issue_and_respond_def Let_def split: completion.splits option.splits)

lemma issue_and_respond_status:
  "fst (fst (issue_and_respond js svc now now' field)) \<in> {200, 500}"
  by (simp add: issue_and_respond_def Let_def internal_error_def success_response_def
      split: option.splits completion.splits)

lemma handler_validated:
  assumes "destructure body = Some field" "validation_passes js field"
  shows "generate_key_handler js svc now now' body = issue_and_respond js svc now now' field"
  using assms by (simp add: generate_key_handler_def validation_passes_def)

lemma handler_issues:
  assumes "destructure body = Some field" "validation_passes js field"
    and "trim_description (field ''description'') = Some desc"
    and "generateApiKey svc (apiKeyOptions_of js now field desc) = Resolves (Some res)"
    and "r_apiKey res = Some k" "k \<noteq> []"
  shows "generate_key_handler js svc now now' body =
     (success_response k res,
      [Issue (apiKeyOptions_of js now field desc),
       LogInfo (''Public API generated new API key: '' @ ToString js (r_id res))]
      @ notify_step js svc now' (with_default (field ''notifyFeishu'') (JBool True))
          k res (field ''feishuWebhook''))"
  using assms
  by (simp add: handler_validated issue_and_respond_cases truthy_str_def)

lemma handler_issue_calls:
  assumes "destructure body = Some field" "validation_passes js field"
    and "trim_description (field ''description'') = Some desc"
  shows "issue_calls (snd (generate_key_handler js svc now now' body))
       = [Issue (apiKeyOptions_of js now field desc)]"
proof -
  have "issue_calls (snd (issue_and_respond js svc now now' field))
       = [Issue (apiKeyOptions_of js now field desc)]"
    using assms(3) issue_calls_notify_step [of js svc now']
    by (simp add: issue_and_respond_cases internal_error_def issue_calls_def
        split: completion.splits option.splits)
  then show ?thesis
    by (simp add: handler_validated [OF assms(1,2)])
qed

lemma handler_success_inversion:
  assumes "generate_key_handler js svc now now' body = ((st, Success d k), evs)"
  shows "\<exists>field desc res.
           destructure body = Some field \<and> validation_passes js field
           \<and> trim_description (field ''description'') = Some desc
           \<and> generateApiKey svc (apiKeyOptions_of js now field desc) = Resolves (Some res)
           \<and> r_apiKey res = Some k \<and> k \<noteq> []"
proof -
  from assms obtain field where p: "destructure body = Some field"
    by (cases "destructure body") (auto simp: generate_key_handler_def internal_error_def)
  have v: "validation_passes js field"
    using assms p
    by (auto simp: generate_key_handler_def validation_passes_def split: if_splits)
  with assms p have i: "issue_and_respond js svc now now' field = ((st, Success d k), evs)"
    by (simp add: handler_validated)
  then obtain desc where t: "trim_description (field ''description'') = Some desc"
    by (cases "trim_description (field ''description'')")
      (auto simp: issue_and_respond_def internal_error_def)
  from i obtain res where g: "generateApiKey svc (apiKeyOptions_of js now field desc) = Resolves (Some res)"
    and a: "truthy_str (r_apiKey res)"
    and s: "success_response (the (r_apiKey res)) res = (st, Success d k)"
    using t
    by (auto simp: issue_and_respond_cases internal_error_def
        split: completion.splits option.splits if_splits)
  from a obtain k' where k': "r_apiKey res = Some k'" "k' \<noteq> []"
    by (auto simp: truthy_str_def split: option.splits)
  with s have "k' = k"
    by (simp add: success_response_def)
  with p v t g k' show ?thesis by blast
qed

lemma handler_name_invalid:
  assumes "destructure body = Some field" "name_invalid (field ''name'')"
  shows "generate_key_handler js svc now now' body =
     ((400, Failure ''Name is required and must be a non-empty string''), [])"
  using assms by (simp add: generate_key_handler_def)

lemma handler_token_invalid:
  assumes "destructure body = Some field" "\<not> name_invalid (field ''name'')"
    and "limit_invalid js (field ''tokenLimit'')"
  shows "generate_key_handler js svc now now' body =
     ((400, Failure ''Token limit must be a positive number''), [])"
  using assms by (simp add: generate_key_handler_def)

lemma handler_daily_invalid:
  assumes "destructure body = Some field" "\<not> name_invalid (field ''name'')"
    and "\<not> limit_invalid js (field ''tokenLimit'')"
    and "limit_invalid js (field ''dailyCostLimit'')"
  shows "generate_key_handler js svc now now' body =
     ((400, Failure ''Daily cost limit must be a positive number''), [])"
  using assms by (simp add: generate_key_handler_def)

lemma handler_monthly_invalid:
  assumes "destructure body = Some field" "\<not> name_invalid (field ''name'')"
    and "\<not> limit_invalid js (field ''tokenLimit'')"
    and "\<not> limit_invalid js (field ''dailyCostLimit'')"
    and "limit_invalid js (field ''monthlyCostLimit'')"
  shows "generate_key_handler js svc now now' body =
     ((400, Failure ''Monthly cost limit must be a positive number''), [])"
  using assms by (simp add: generate_key_handler_def)

lemma handler_400_validation:
  assumes "destructure body = Some field"
    and "fst (fst (generate_key_handler js svc now now' body)) = 400"
  shows "\<not> validation_passes js field"
proof
  assume "validation_passes js field"
  with assms(1) have "generate_key_handler js svc now now' body
      = issue_and_respond js svc now now' field"
    by (rule handler_validated)
  with assms(2) issue_and_respond_status [of js svc now now' field] show False
    by simp
qed

lemma destructure_object:
  "destructure (JObj props)
     = Some (\<lambda>k. case map_of props k of None \<Rightarrow> JUndefined | Some v \<Rightarrow> v)"
  by (simp add: destructure_def)

lemma name_valid_test: "\<not> name_invalid (JStr ''Test API Key'')"
  by (simp add: name_invalid_def string_of_def trim_def is_white_space_def)

lemma name_invalid_empty: "name_invalid (JStr [])"
  by (simp add: name_invalid_def)

lemma limit_invalid_absent: "\<not> limit_invalid js JUndefined"
  by (simp add: limit_invalid_def)

lemma limit_invalid_zero: "\<not> limit_invalid js (JNum (Fin 0))"
  by (simp add: limit_invalid_def)

lemma limit_invalid_text: "limit_invalid js (JStr ''100'')"
  by (simp add: limit_invalid_def)

lemma limit_invalid_null: "\<not> limit_invalid js JNull"
  by (simp add: limit_invalid_def)

lemma stub_issues_key:
  assumes "destructure body = Some field" "validation_passes stub_builtins field"
    and "trim_description (field ''description'') = Some desc"
  shows "fst (fst (generate_key_handler stub_builtins stub_services now now' body)) = 200
       \<and> issue_calls (snd (generate_key_handler stub_builtins stub_services now now' body)) \<noteq> []"
proof -
  have "generate_key_handler stub_builtins stub_services now now' body
      = issue_and_respond stub_builtins stub_services now now' field"
    using assms(1,2) by (rule handler_validated)
  then have "fst (fst (generate_key_handler stub_builtins stub_services now now' body)) = 200"
    using assms(3)
    by (simp add: issue_and_respond_cases stub_services_def stub_result_def truthy_str_def
        success_response_def)
  moreover have "issue_calls (snd (generate_key_handler stub_builtins stub_services now now' body))
      \<noteq> []"
    by (simp add: handler_issue_calls [OF assms])
  ultimately show ?thesis ..
qed

text \<open>
  C4, as stated, at two bodies with a valid name: one whose token limit is the number
  zero, one whose token limit is \<^verbatim>\<open>null\<close>. In both the limit is present and is not a
  positive number, yet the handler answers 200 and the issuance service is called.
\<close>

theorem falsy_token_limit_counterexample:
  "present (the (destructure zero_limit_body) ''tokenLimit'')
   \<and> \<not> positive_number (the (destructure zero_limit_body) ''tokenLimit'')
   \<and> fst (fst (generate_key_handler stub_builtins stub_services
                  1700000000000 1700000000000 zero_limit_body)) = 200
   \<and> issue_calls (snd (generate_key_handler stub_builtins stub_services
                  1700000000000 1700000000000 zero_limit_body)) \<noteq> []
   \<and> present (the (destructure null_limit_body) ''tokenLimit'')
   \<and> \<not> positive_number (the (destructure null_limit_body) ''tokenLimit'')
   \<and> fst (fst (generate_key_handler stub_builtins stub_services
                  1700000000000 1700000000000 null_limit_body)) = 200
   \<and> issue_calls (snd (generate_key_handler stub_builtins stub_services
                  1700000000000 1700000000000 null_limit_body)) \<noteq> []"
proof -
  let ?zero = "\<lambda>k. case map_of [(''name'', JStr ''Test API Key''),
      (''tokenLimit'', JNum (Fin 0))] k of None \<Rightarrow> JUndefined | Some v \<Rightarrow> v"
  let ?null = "\<lambda>k. case map_of [(''name'', JStr ''Test API Key''),
      (''tokenLimit'', JNull)] k of None \<Rightarrow> JUndefined | Some v \<Rightarrow> v"
  have dz: "destructure zero_limit_body = Some ?zero"
    by (simp add: zero_limit_body_def destructure_object)
  have dn: "destructure null_limit_body = Some ?null"
    by (simp add: null_limit_body_def destructure_object)
  have vz: "validation_passes stub_builtins ?zero"
    by (simp add: validation_passes_def name_valid_test limit_invalid_absent limit_invalid_zero)
  have vn: "validation_passes stub_builtins ?null"
    by (simp add: validation_passes_def name_valid_test limit_invalid_absent limit_invalid_null)
  have tz: "trim_description (?zero ''description'') = Some []"
    by (simp add: trim_description_def)
  have tn: "trim_description (?null ''description'') = Some []"
    by (simp add: trim_description_def)
  have pz: "present (the (destructure zero_limit_body) ''tokenLimit'')
      \<and> \<not> positive_number (the (destructure zero_limit_body) ''tokenLimit'')"
    by (simp add: dz present_def positive_number_def num_gt_def)
  have pn: "present (the (destructure null_limit_body) ''tokenLimit'')
      \<and> \<not> positive_number (the (destructure null_limit_body) ''tokenLimit'')"
    by (simp add: dn present_def positive_number_def)
  from pz pn stub_issues_key [OF dz vz tz, of 1700000000000 1700000000000]
    stub_issues_key [OF dn vn tn, of 1700000000000 1700000000000]
  show ?thesis
    by blast
qed

text \<open>
  C4, amended. A limit is checked when it is truthy (present and not \<^verbatim>\<open>null\<close>,
  \<^verbatim>\<open>false\<close>, zero or the empty string). When one of \<^verbatim>\<open>tokenLimit\<close>, \<^verbatim>\<open>dailyCostLimit\<close>,
  \<^verbatim>\<open>monthlyCostLimit\<close> is truthy and not a positive number, the handler answers 400 and
  nothing else happens (the issuance service is not called); when the name is valid
  the message is the one of the first such limit, in the order token, daily, monthly.
\<close>

theorem truthy_invalid_limit_rejected:
  assumes body: "destructure body = Some field"
    and bad: "truthy_not_positive (field ''tokenLimit'')
            \<or> truthy_not_positive (field ''dailyCostLimit'')
            \<or> truthy_not_positive (field ''monthlyCostLimit'')"
  shows "fst (fst (generate_key_handler js svc now now' body)) = 400
       \<and> snd (generate_key_handler js svc now now' body) = []
       \<and> (\<not> name_invalid (field ''name'') \<longrightarrow>
            generate_key_handler js svc now now' body =
              ((400, Failure
                  (if truthy_not_positive (field ''tokenLimit'')
                   then ''Token limit must be a positive number''
                   else if truthy_not_positive (field ''dailyCostLimit'')
                   then ''Daily cost limit must be a positive number''
                   else ''Monthly cost limit must be a positive number'')), []))"
proof (cases "name_invalid (field ''name'')")
  case True
  from handler_name_invalid [OF body True] True show ?thesis
    by simp
next
  case False
  have inv: "\<And>v. limit_invalid js v = truthy_not_positive v"
    by (simp add: limit_invalid_iff truthy_not_positive_def)
  show ?thesis
  proof (cases "limit_invalid js (field ''tokenLimit'')")
    case True
    from handler_token_invalid [OF body False True] True show ?thesis
      by (simp add: inv)
  next
    case token: False
    show ?thesis
    proof (cases "limit_invalid js (field ''dailyCostLimit'')")
      case True
      from handler_daily_invalid [OF body False token True] token True show ?thesis
        by (simp add: inv)
    next
      case daily: False
      from bad token daily have "limit_invalid js (field ''monthlyCostLimit'')"
        by (simp add: inv)
      from handler_monthly_invalid [OF body False token daily this] token daily
      show ?thesis
        by (simp add: inv)
    qed
  qed
qed

theorem truthy_invalid_limit_rejected_witness:
  "generate_key_handler stub_builtins stub_services 1700000000000 1700000000000
     (JObj [(''name'', JStr ''Test API Key''), (''dailyCostLimit'', JNum (Fin (- 5)))])
   = ((400, Failure ''Daily cost limit must be a positive number''), [])"
  using truthy_invalid_limit_rejected [of
      "JObj [(''name'', JStr ''Test API Key''), (''dailyCostLimit'', JNum (Fin (- 5)))]"
      "\<lambda>k. case map_of [(''name'', JStr ''Test API Key''),
         (''dailyCostLimit'', JNum (Fin (- 5)))] k of None \<Rightarrow> JUndefined | Some v \<Rightarrow> v"
      stub_builtins stub_services 1700000000000 1700000000000]
    name_valid_test
  by (simp add: destructure_object truthy_not_positive_def positive_number_def num_gt_def)

text \<open>
  C10. The checks run in the order name, token limit, daily cost limit, monthly cost
  limit, and the first that fails gives the one 400 answer: an invalid name gives the
  name message whatever the limits are; each limit message is given exactly when the
  checks before it passed and its own failed; and a 400 is given by these checks only.
\<close>

theorem validation_order:
  assumes body: "destructure body = Some field"
  shows "(name_invalid (field ''name'') \<longrightarrow>
            generate_key_handler js svc now now' body =
              ((400, Failure ''Name is required and must be a non-empty string''), []))
       \<and> ((fst (generate_key_handler js svc now now' body)
              = (400, Failure ''Token limit must be a positive number''))
            = (\<not> name_invalid (field ''name'') \<and> limit_invalid js (field ''tokenLimit'')))
       \<and> ((fst (generate_key_handler js svc now now' body)
              = (400, Failure ''Daily cost limit must be a positive number''))
            = (\<not> name_invalid (field ''name'') \<and> \<not> limit_invalid js (field ''tokenLimit'')
               \<and> limit_invalid js (field ''dailyCostLimit'')))
       \<and> ((fst (generate_key_handler js svc now now' body)
              = (400, Failure ''Monthly cost limit must be a positive number''))
            = (\<not> name_invalid (field ''name'') \<and> \<not> limit_invalid js (field ''tokenLimit'')
               \<and> \<not> limit_invalid js (field ''dailyCostLimit'')
               \<and> limit_invalid js (field ''monthlyCostLimit'')))
       \<and> ((fst (fst (generate_key_handler js svc now now' body)) = 400)
            = (\<not> validation_passes js field))"
proof (cases "validation_passes js field")
  case True
  have n: "fst (fst (generate_key_handler js svc now now' body)) \<noteq> 400"
    using handler_400_validation [OF body, of js svc now now'] True by blast
  then have "\<And>e. fst (generate_key_handler js svc now now' body) \<noteq> (400, Failure e)"
    by (cases "fst (generate_key_handler js svc now now' body)") auto
  with True n show ?thesis
    by (simp add: validation_passes_def)
next
  case False
  show ?thesis
  proof (cases "name_invalid (field ''name'')")
    case True
    from handler_name_invalid [OF body True] True False show ?thesis
      by simp
  next
    case name: False
    show ?thesis
    proof (cases "limit_invalid js (field ''tokenLimit'')")
      case True
      from handler_token_invalid [OF body name True] name True False show ?thesis
        by simp
    next
      case token: False
      show ?thesis
      proof (cases "limit_invalid js (field ''dailyCostLimit'')")
        case True
        from handler_daily_invalid [OF body name token True] name token True False
        show ?thesis
          by simp
      next
        case daily: False
        from False name token daily have m: "limit_invalid js (field ''monthlyCostLimit'')"
          by (simp add: validation_passes_def)
        from handler_monthly_invalid [OF body name token daily m] name token daily m False
        show ?thesis
          by simp
      qed
    qed
  qed
qed

theorem validation_order_witness:
  "generate_key_handler stub_builtins stub_services 1700000000000 1700000000000
     (JObj [(''name'', JStr []), (''tokenLimit'', JStr ''100''),
            (''dailyCostLimit'', JNum (Fin (- 5)))])
   = ((400, Failure ''Name is required and must be a non-empty string''), [])
   \<and> fst (generate_key_handler stub_builtins stub_services 1700000000000 1700000000000
       (JObj [(''name'', JStr ''Test API Key''), (''tokenLimit'', JStr ''100''),
            (''dailyCostLimit'', JNum (Fin (- 5)))]))
     = (400, Failure ''Token limit must be a positive number'')"
proof -
  have a: "generate_key_handler stub_builtins stub_services 1700000000000 1700000000000
     (JObj [(''name'', JStr []), (''tokenLimit'', JStr ''100''),
            (''dailyCostLimit'', JNum (Fin (- 5)))])
   = ((400, Failure ''Name is required and must be a non-empty string''), [])"
    using validation_order [of
        "JObj [(''name'', JStr []), (''tokenLimit'', JStr ''100''),
               (''dailyCostLimit'', JNum (Fin (- 5)))]"
        "\<lambda>k. case map_of [(''name'', JStr []), (''tokenLimit'', JStr ''100''),
           (''dailyCostLimit'', JNum (Fin (- 5)))] k of None \<Rightarrow> JUndefined | Some v \<Rightarrow> v"
        stub_builtins stub_services 1700000000000 1700000000000]
      name_invalid_empty
    by (simp add: destructure_object)
  have b: "fst (generate_key_handler stub_builtins stub_services 1700000000000 1700000000000
       (JObj [(''name'', JStr ''Test API Key''), (''tokenLimit'', JStr ''100''),
            (''dailyCostLimit'', JNum (Fin (- 5)))]))
     = (400, Failure ''Token limit must be a positive number'')"
    using validation_order [of
        "JObj [(''name'', JStr ''Test API Key''), (''tokenLimit'', JStr ''100''),
               (''dailyCostLimit'', JNum (Fin (- 5)))]"
        "\<lambda>k. case map_of [(''name'', JStr ''Test API Key''), (''tokenLimit'', JStr ''100''),
           (''dailyCostLimit'', JNum (Fin (- 5)))] k of None \<Rightarrow> JUndefined | Some v \<Rightarrow> v"
        stub_builtins stub_services 1700000000000 1700000000000]
      name_valid_test limit_invalid_text [of stub_builtins]
    by (simp add: destructure_object)
  from a b show ?thesis ..
qed


section \<open>Properties of the expiry\<close>

text \<open>
  The year function meets its specification: the year starts on or before the day, and
  the next year starts after it.
\<close>

lemma DayFromYear_bounds:
  "146097 * y - 287811890 \<le> 400 * DayFromYear y \<and> 400 * DayFromYear y \<le> 146097 * y - 287810290"
proof -
  define a where "a = (y - 1969) div 4"
  define b where "b = (y - 1901) div 100"
  define c where "c = (y - 1601) div 400"
  have a: "4 * a \<le> y - 1969" "y - 1969 < 4 * a + 4"
    unfolding a_def by simp_all
  have b: "100 * b \<le> y - 1901" "y - 1901 < 100 * b + 100"
    unfolding b_def by simp_all
  have c: "400 * c \<le> y - 1601" "y - 1601 < 400 * c + 400"
    unfolding c_def by simp_all
  have "DayFromYear y = 365 * y - 719050 + a - b + c"
    by (simp add: DayFromYear_def a_def b_def c_def)
  with a b c show ?thesis
    by linarith
qed

lemma YearFromTime_spec:
  "DayFromYear (YearFromTime t) \<le> Day t \<and> Day t < DayFromYear (YearFromTime t + 1)"
proof -
  define d where "d = Day t"
  define y where "y = 1970 + (d * 400) div 146097"
  define q where "q = (d * 400) div 146097"
  have q: "146097 * q \<le> 400 * d" "400 * d < 146097 * q + 146097"
    unfolding q_def by simp_all
  have y: "y = 1970 + q"
    by (simp add: y_def q_def)
  have Y: "YearFromTime t =
      (if d < DayFromYear y then y - 1 else if DayFromYear (y + 1) \<le> d then y + 1 else y)"
    by (simp add: YearFromTime_def Let_def d_def y_def)
  have lo: "DayFromYear (y - 1) \<le> d"
    using DayFromYear_bounds [of "y - 1"] q y by simp
  have hi: "d < DayFromYear (y + 2)"
    using DayFromYear_bounds [of "y + 2"] q y by simp
  have "y + 1 + 1 = y + 2" "y - 1 + 1 = y"
    by simp_all
  with lo hi show ?thesis
    unfolding d_def [symmetric] Y by (auto simp: add.commute)
qed

lemma MonthFromTime_range: "0 \<le> MonthFromTime t \<and> MonthFromTime t \<le> 11"
  by (simp add: MonthFromTime_def Let_def)

lemma ToInteger_of_int: "ToInteger (of_int k) = k"
  by (simp add: ToInteger_def)

text \<open>
  Setting the day of the month to the current one plus \<open>n\<close> lands \<open>n\<close> days after the
  current day, whatever the month and the year are: the first day of the month
  cancels out.
\<close>

lemma MakeDay_DateFromTime:
  "MakeDay (YearFromTime t) (MonthFromTime t) (Fin (of_int (DateFromTime t) + of_int n))
     = Some (Day t + n)"
proof -
  have m: "MonthFromTime t div 12 = 0" "MonthFromTime t mod 12 = MonthFromTime t"
    using MonthFromTime_range [of t] by simp_all
  have r: "ToInteger (of_int (DateFromTime t) + of_int n) = DateFromTime t + n"
    using ToInteger_of_int [of "DateFromTime t + n"] by simp
  have "MakeDay (YearFromTime t) (MonthFromTime t) (Fin (of_int (DateFromTime t) + of_int n))
      = Some (DayFromYear (YearFromTime t) + month_start (MonthFromTime t) (InLeapYear t)
              + (DateFromTime t + n) - 1)"
    by (simp add: MakeDay_def Let_def m r InLeapYear_def)
  also have "\<dots> = Some (Day t + n)"
    by (simp add: DateFromTime_def DayWithinYear_def)
  finally show ?thesis .
qed

lemma MakeDate_Day: "MakeDate (Day t + n) (TimeWithinDay t) = t + n * msPerDay"
proof -
  have "t div msPerDay * msPerDay + t mod msPerDay = t"
    by simp
  then show ?thesis
    by (simp add: MakeDate_def Day_def TimeWithinDay_def algebra_simps)
qed

lemma Day_plus_days: "Day (t + n * msPerDay) = Day t + n"
  by (simp add: Day_def msPerDay_def)

lemma TimeWithinDay_plus_days: "TimeWithinDay (t + n * msPerDay) = TimeWithinDay t"
  by (simp add: TimeWithinDay_def)

lemma setDate_getDate_plus:
  "setDate js (Some now) (js_plus js (JNum (getDate js (Some now))) (JNum (Fin (of_int n))))
     = TimeClip (UTC js (LocalTime js now + n * msPerDay))"
proof -
  have "js_plus js (JNum (getDate js (Some now))) (JNum (Fin (of_int n)))
      = JNum (Fin (of_int (DateFromTime (LocalTime js now)) + of_int n))"
    by (simp add: js_plus_def getDate_def)
  then show ?thesis
    by (simp add: setDate_def Let_def MakeDay_DateFromTime MakeDate_Day)
qed

lemma compute_expiresAt_int:
  "compute_expiresAt js now (JNum (Fin (of_int n)))
     = (if 0 < n then JDate (TimeClip (UTC js (LocalTime js now + n * msPerDay))) else JNull)"
  by (simp add: compute_expiresAt_def js_gt_zero_def num_gt_def setDate_getDate_plus)

lemma compute_expiresAt_fixed_zone:
  assumes "0 < n" "\<And>t u. LocalTZA js t u = z" "\<bar>now + n * msPerDay\<bar> \<le> 8640000000000000"
  shows "compute_expiresAt js now (JNum (Fin (of_int n))) = JDate (Some (now + n * msPerDay))"
  using assms by (simp add: compute_expiresAt_int UTC_def LocalTime_def TimeClip_def)

text \<open>The calendar functions by direct evaluation: 14 November 2023 plus 30 days.\<close>

lemma date_of_test_clock:
  "YearFromTime 1700000000000 = 2023 \<and> MonthFromTime 1700000000000 = 10
   \<and> DateFromTime 1700000000000 = 14"
proof -
  have y: "YearFromTime 1700000000000 = 2023"
    by (simp add: YearFromTime_def Day_def msPerDay_def DayFromYear_def)
  have l: "InLeapYear 1700000000000 = 0"
    by (simp add: InLeapYear_def y DaysInYear_def)
  have d: "DayWithinYear 1700000000000 = 317"
    by (simp add: DayWithinYear_def y Day_def msPerDay_def DayFromYear_def)
  have m: "MonthFromTime 1700000000000 = 10"
    by (simp add: MonthFromTime_def d l)
  have "DateFromTime 1700000000000 = 14"
    by (simp add: DateFromTime_def d l m month_start_def)
  with y m show ?thesis by simp
qed

lemma setDate_evaluated:
  "setDate stub_builtins (Some 1700000000000) (JNum (Fin 44)) = Some 1702592000000"
proof -
  have t: "LocalTime stub_builtins 1700000000000 = 1700000000000"
    by (simp add: LocalTime_def stub_builtins_def)
  have u: "\<And>x. UTC stub_builtins x = x"
    by (simp add: UTC_def stub_builtins_def)
  have d: "MakeDay 2023 10 (Fin 44) = Some 19705"
    by (simp add: MakeDay_def DayFromYear_def DaysInYear_def month_start_def ToInteger_def)
  have c: "TimeClip (MakeDate 19705 (TimeWithinDay 1700000000000)) = Some 1702592000000"
    by (simp add: MakeDate_def TimeWithinDay_def msPerDay_def TimeClip_def)
  show ?thesis
    using date_of_test_clock
    by (simp add: setDate_def Let_def t u d c)
qed

text \<open>The options and the success payload written out, and two evaluations used below.\<close>

lemma apiKeyOptions_of_explicit:
  "apiKeyOptions_of js now field desc =
     \<lparr> o_name = trim (string_of (field ''name'')), o_description = desc,
       o_tokenLimit = field ''tokenLimit'',
       o_expiresAt =
         compute_expiresAt js now (with_default (field ''expirationDays'') (JNum (Fin 30))),
       o_dailyCostLimit = field ''dailyCostLimit'',
       o_monthlyCostLimit = field ''monthlyCostLimit'',
       o_createdBy = ''public-api'', o_activationMode = ''immediate'' \<rparr>"
  by (simp add: apiKeyOptions_of_def)

lemma success_response_explicit:
  "success_response k res =
     (200, Success
        \<lparr> d_id = r_id res, d_name = r_name res, d_description = r_description res,
          d_keyPrefix = take 8 k @ ''...'', d_tokenLimit = r_tokenLimit res,
          d_dailyCostLimit = r_dailyCostLimit res,
          d_monthlyCostLimit = r_monthlyCostLimit res, d_expiresAt = r_expiresAt res,
          d_createdAt = r_createdAt res, d_status = r_status res \<rparr> k)"
  by (simp add: success_response_def keyPrefix_def)

lemma trim_test_name: "trim (string_of (JStr ''Test API Key'')) = ''Test API Key''"
  by (simp add: string_of_def trim_def is_white_space_def)

text \<open>
  C5, as stated, at four requests with a valid name. With 100000000 days the expiry
  handed to the issuance service is the invalid date. In the zone of New York, 30 days
  from 9 February 2024, 02:30 local time, end at 03:30 local time, because 02:30 does
  not exist on 10 March; 30 days from 10 October 2024, 12:00 local time, end 30 days
  and one hour later. With zero days the service receives \<^verbatim>\<open>null\<close>, and when it
  returns the empty string as the expiry the response carries the empty string.
\<close>

theorem expiry_counterexample:
  "issue_calls (snd (generate_key_handler stub_builtins stub_services
       1700000000000 1700000000000
       (JObj [(''name'', JStr ''Test API Key''), (''expirationDays'', JNum (Fin 100000000))])))
     = [Issue \<lparr> o_name = ''Test API Key'', o_description = [], o_tokenLimit = JUndefined,
                o_expiresAt = JDate None, o_dailyCostLimit = JUndefined,
                o_monthlyCostLimit = JUndefined, o_createdBy = ''public-api'',
                o_activationMode = ''immediate'' \<rparr>]
   \<and> issue_calls (snd (generate_key_handler new_york_builtins stub_services
       1707463800000 1707463800000
       (JObj [(''name'', JStr ''Test API Key''), (''expirationDays'', JNum (Fin 30))])))
     = [Issue \<lparr> o_name = ''Test API Key'', o_description = [], o_tokenLimit = JUndefined,
                o_expiresAt = JDate (Some 1710055800000), o_dailyCostLimit = JUndefined,
                o_monthlyCostLimit = JUndefined, o_createdBy = ''public-api'',
                o_activationMode = ''immediate'' \<rparr>]
   \<and> (1707463800000 + LocalTZA new_york_builtins 1707463800000 True) mod 86400000 = 9000000
   \<and> (1710055800000 + LocalTZA new_york_builtins 1710055800000 True) mod 86400000 = 12600000
   \<and> issue_calls (snd (generate_key_handler new_york_builtins stub_services
       1728576000000 1728576000000
       (JObj [(''name'', JStr ''Test API Key''), (''expirationDays'', JNum (Fin 30))])))
     = [Issue \<lparr> o_name = ''Test API Key'', o_description = [], o_tokenLimit = JUndefined,
                o_expiresAt = JDate (Some 1731171600000), o_dailyCostLimit = JUndefined,
                o_monthlyCostLimit = JUndefined, o_createdBy = ''public-api'',
                o_activationMode = ''immediate'' \<rparr>]
   \<and> (1731171600000 :: int) = 1728576000000 + 30 * 86400000 + 3600000
   \<and> generate_key_handler stub_builtins blank_expiry_services 1700000000000 1700000000000
       (JObj [(''name'', JStr ''Test API Key''), (''expirationDays'', JNum (Fin 0)),
              (''notifyFeishu'', JBool False)])
     = ((200, Success
           \<lparr> d_id = JStr ''key-1'', d_name = JStr ''Test API Key'', d_description = JStr [],
             d_keyPrefix = ''cr_01234...'', d_tokenLimit = JUndefined,
             d_dailyCostLimit = JUndefined, d_monthlyCostLimit = JUndefined,
             d_expiresAt = JStr [], d_createdAt = JStr ''2023-11-14T22:13:20.000Z'',
             d_status = JStr ''active'' \<rparr>
           ''cr_0123456789abcdef''),
        [Issue \<lparr> o_name = ''Test API Key'', o_description = [], o_tokenLimit = JUndefined,
                  o_expiresAt = JNull, o_dailyCostLimit = JUndefined,
                  o_monthlyCostLimit = JUndefined, o_createdBy = ''public-api'',
                  o_activationMode = ''immediate'' \<rparr>,
         LogInfo ''Public API generated new API key: key-1''])"
proof -
  let ?huge = "\<lambda>k. case map_of [(''name'', JStr ''Test API Key''),
      (''expirationDays'', JNum (Fin 100000000))] k of None \<Rightarrow> JUndefined | Some v \<Rightarrow> v"
  let ?month = "\<lambda>k. case map_of [(''name'', JStr ''Test API Key''),
      (''expirationDays'', JNum (Fin 30))] k of None \<Rightarrow> JUndefined | Some v \<Rightarrow> v"
  let ?zero = "\<lambda>k. case map_of [(''name'', JStr ''Test API Key''),
      (''expirationDays'', JNum (Fin 0)), (''notifyFeishu'', JBool False)] k of
      None \<Rightarrow> JUndefined | Some v \<Rightarrow> v"
  have v: "\<And>js. validation_passes js ?huge" "\<And>js. validation_passes js ?month"
      "\<And>js. validation_passes js ?zero"
    by (simp_all add: validation_passes_def name_valid_test limit_invalid_absent)
  have t: "trim_description (?huge ''description'') = Some []"
      "trim_description (?month ''description'') = Some []"
      "trim_description (?zero ''description'') = Some []"
    by (simp_all add: trim_description_def)
  have e1: "compute_expiresAt stub_builtins 1700000000000 (JNum (Fin 100000000)) = JDate None"
    using compute_expiresAt_int [of stub_builtins 1700000000000 100000000]
    by (simp add: UTC_def LocalTime_def TimeClip_def msPerDay_def stub_builtins_def)
  have e2: "compute_expiresAt new_york_builtins 1707463800000 (JNum (Fin 30))
      = JDate (Some 1710055800000)"
    using compute_expiresAt_int [of new_york_builtins 1707463800000 30]
    by (simp add: UTC_def LocalTime_def TimeClip_def msPerDay_def new_york_builtins_def)
  have e3: "compute_expiresAt new_york_builtins 1728576000000 (JNum (Fin 30))
      = JDate (Some 1731171600000)"
    using compute_expiresAt_int [of new_york_builtins 1728576000000 30]
    by (simp add: UTC_def LocalTime_def TimeClip_def msPerDay_def new_york_builtins_def)
  have e4: "compute_expiresAt stub_builtins 1700000000000 (JNum (Fin 0)) = JNull"
    using compute_expiresAt_int [of stub_builtins 1700000000000 0] by simp
  have 1: "issue_calls (snd (generate_key_handler stub_builtins stub_services
       1700000000000 1700000000000
       (JObj [(''name'', JStr ''Test API Key''), (''expirationDays'', JNum (Fin 100000000))])))
     = [Issue \<lparr> o_name = ''Test API Key'', o_description = [], o_tokenLimit = JUndefined,
                o_expiresAt = JDate None, o_dailyCostLimit = JUndefined,
                o_monthlyCostLimit = JUndefined, o_createdBy = ''public-api'',
                o_activationMode = ''immediate'' \<rparr>]"
    using handler_issue_calls [OF destructure_object v(1) t(1),
        of stub_builtins stub_services 1700000000000 1700000000000]
    by (simp add: apiKeyOptions_of_explicit with_default_def trim_test_name e1)
  have 2: "issue_calls (snd (generate_key_handler new_york_builtins stub_services
       1707463800000 1707463800000
       (JObj [(''name'', JStr ''Test API Key''), (''expirationDays'', JNum (Fin 30))])))
     = [Issue \<lparr> o_name = ''Test API Key'', o_description = [], o_tokenLimit = JUndefined,
                o_expiresAt = JDate (Some 1710055800000), o_dailyCostLimit = JUndefined,
                o_monthlyCostLimit = JUndefined, o_createdBy = ''public-api'',
                o_activationMode = ''immediate'' \<rparr>]"
    using handler_issue_calls [OF destructure_object v(2) t(2),
        of new_york_builtins stub_services 1707463800000 1707463800000]
    by (simp add: apiKeyOptions_of_explicit with_default_def trim_test_name e2)
  have 3: "(1707463800000 + LocalTZA new_york_builtins 1707463800000 True) mod 86400000
      = 9000000"
    by (simp add: new_york_builtins_def)
  have 4: "(1710055800000 + LocalTZA new_york_builtins 1710055800000 True) mod 86400000
      = 12600000"
    by (simp add: new_york_builtins_def)
  have 5: "issue_calls (snd (generate_key_handler new_york_builtins stub_services
       1728576000000 1728576000000
       (JObj [(''name'', JStr ''Test API Key''), (''expirationDays'', JNum (Fin 30))])))
     = [Issue \<lparr> o_name = ''Test API Key'', o_description = [], o_tokenLimit = JUndefined,
                o_expiresAt = JDate (Some 1731171600000), o_dailyCostLimit = JUndefined,
                o_monthlyCostLimit = JUndefined, o_createdBy = ''public-api'',
                o_activationMode = ''immediate'' \<rparr>]"
    using handler_issue_calls [OF destructure_object v(2) t(2),
        of new_york_builtins stub_services 1728576000000 1728576000000]
    by (simp add: apiKeyOptions_of_explicit with_default_def trim_test_name e3)
  have 6: "(1731171600000 :: int) = 1728576000000 + 30 * 86400000 + 3600000"
    by simp
  have 7: "generate_key_handler stub_builtins blank_expiry_services 1700000000000 1700000000000
       (JObj [(''name'', JStr ''Test API Key''), (''expirationDays'', JNum (Fin 0)),
              (''notifyFeishu'', JBool False)])
     = ((200, Success
           \<lparr> d_id = JStr ''key-1'', d_name = JStr ''Test API Key'', d_description = JStr [],
             d_keyPrefix = ''cr_01234...'', d_tokenLimit = JUndefined,
             d_dailyCostLimit = JUndefined, d_monthlyCostLimit = JUndefined,
             d_expiresAt = JStr [], d_createdAt = JStr ''2023-11-14T22:13:20.000Z'',
             d_status = JStr ''active'' \<rparr>
           ''cr_0123456789abcdef''),
        [Issue \<lparr> o_name = ''Test API Key'', o_description = [], o_tokenLimit = JUndefined,
                  o_expiresAt = JNull, o_dailyCostLimit = JUndefined,
                  o_monthlyCostLimit = JUndefined, o_createdBy = ''public-api'',
                  o_activationMode = ''immediate'' \<rparr>,
         LogInfo ''Public API generated new API key: key-1''])"
    using handler_issues [where svc = blank_expiry_services and now = 1700000000000
        and res = "(stub_result (apiKeyOptions_of stub_builtins 1700000000000 ?zero []))
           \<lparr>r_expiresAt := JStr []\<rparr>"
        and k = "''cr_0123456789abcdef''" and now' = 1700000000000,
        OF destructure_object v(3) t(3)]
    by (simp add: blank_expiry_services_def stub_result_def success_response_explicit
        apiKeyOptions_of_explicit notify_step_def with_default_def trim_test_name e4)
  from 1 2 3 4 5 6 7 show ?thesis
    by (intro conjI)
qed

text \<open>
  C5, amended. A request that passes the validation, with \<^verbatim>\<open>expirationDays\<close> a whole
  number \<open>n \<ge> 0\<close> or absent (then \<open>n\<close> is 30): the issuance service is called once,
  with the computed expiry. For \<open>n = 0\<close> the expiry is \<^verbatim>\<open>null\<close>. For \<open>n > 0\<close> the
  local time of \<open>now\<close> is advanced by \<open>n\<close> days of 86400000 ms, which gives the
  local time \<open>lt\<close>, and \<open>lt\<close> is read back as the instant \<open>u\<close> with the offset
  of the zone at that local time; when \<open>u\<close> is in the range of a \<^verbatim>\<open>Date\<close> it is the
  expiry. When the zone has the same offset at \<open>u\<close>, the local day of the expiry is
  \<open>n\<close> days after the local day of \<open>now\<close> and its local time within the day is
  the same; with one fixed offset the expiry is \<open>now\<close> plus \<open>n\<close> days of
  86400000 ms. The response carries the expiry that the issuance service returned, so
  \<^verbatim>\<open>null\<close> when the service returns the \<^verbatim>\<open>null\<close> it was given.
\<close>

theorem expiry_computation:
  assumes body: "destructure body = Some field"
    and valid: "validation_passes js field"
    and desc: "trim_description (field ''description'') = Some desc"
    and days: "with_default (field ''expirationDays'') (JNum (Fin 30)) = JNum (Fin (of_int n))"
    and n: "0 \<le> n"
    and lt: "lt = now + LocalTZA js now True + n * 86400000"
    and u: "u = lt - LocalTZA js lt False"
  shows "(\<exists>opts. issue_calls (snd (generate_key_handler js svc now now' body)) = [Issue opts]
            \<and> (n = 0 \<longrightarrow> o_expiresAt opts = JNull)
            \<and> (0 < n \<and> \<bar>u\<bar> \<le> 8640000000000000 \<longrightarrow>
                 o_expiresAt opts = JDate (Some u)
                 \<and> (LocalTZA js u True = LocalTZA js lt False \<longrightarrow>
                      (u + LocalTZA js u True) div 86400000
                        = (now + LocalTZA js now True) div 86400000 + n
                      \<and> (u + LocalTZA js u True) mod 86400000
                        = (now + LocalTZA js now True) mod 86400000))
            \<and> (\<forall>z. 0 < n \<and> (\<forall>t b. LocalTZA js t b = z)
                     \<and> \<bar>now + n * 86400000\<bar> \<le> 8640000000000000 \<longrightarrow>
                   o_expiresAt opts = JDate (Some (now + n * 86400000)))
            \<and> (\<forall>res k. generateApiKey svc opts = Resolves (Some res)
                     \<and> r_apiKey res = Some k \<and> k \<noteq> [] \<longrightarrow>
                   (\<exists>d. fst (generate_key_handler js svc now now' body) = (200, Success d k)
                      \<and> d_expiresAt d = r_expiresAt res
                      \<and> (r_expiresAt res = o_expiresAt opts \<and> n = 0 \<longrightarrow> d_expiresAt d = JNull))))
       \<and> (field ''expirationDays'' = JUndefined \<longrightarrow> n = 30)"
proof -
  let ?opts = "apiKeyOptions_of js now field desc"
  have L: "LocalTime js now + n * msPerDay = lt"
    by (simp add: lt LocalTime_def msPerDay_def)
  have U: "UTC js lt = u"
    by (simp add: u UTC_def)
  have e: "o_expiresAt ?opts = compute_expiresAt js now (JNum (Fin (of_int n)))"
    by (simp add: apiKeyOptions_of_def days)
  have c: "o_expiresAt ?opts = (if 0 < n then JDate (TimeClip u) else JNull)"
    by (simp only: e compute_expiresAt_int L U)
  have 1: "issue_calls (snd (generate_key_handler js svc now now' body)) = [Issue ?opts]"
    using body valid desc by (rule handler_issue_calls)
  have 2: "n = 0 \<longrightarrow> o_expiresAt ?opts = JNull"
    by (simp add: c)
  have 3: "0 < n \<and> \<bar>u\<bar> \<le> 8640000000000000 \<longrightarrow>
      o_expiresAt ?opts = JDate (Some u)
      \<and> (LocalTZA js u True = LocalTZA js lt False \<longrightarrow>
           (u + LocalTZA js u True) div 86400000
             = (now + LocalTZA js now True) div 86400000 + n
           \<and> (u + LocalTZA js u True) mod 86400000
             = (now + LocalTZA js now True) mod 86400000)"
  proof (intro impI conjI)
    assume "0 < n \<and> \<bar>u\<bar> \<le> 8640000000000000"
    then show "o_expiresAt ?opts = JDate (Some u)"
      by (simp add: c TimeClip_def)
  next
    assume "LocalTZA js u True = LocalTZA js lt False"
    then have same: "u + LocalTZA js u True = now + LocalTZA js now True + n * 86400000"
      by (simp add: u lt)
    show "(u + LocalTZA js u True) div 86400000
        = (now + LocalTZA js now True) div 86400000 + n"
      using same by simp
    show "(u + LocalTZA js u True) mod 86400000
        = (now + LocalTZA js now True) mod 86400000"
      using same by simp
  qed
  have 4: "\<forall>z. 0 < n \<and> (\<forall>t b. LocalTZA js t b = z)
        \<and> \<bar>now + n * 86400000\<bar> \<le> 8640000000000000 \<longrightarrow>
      o_expiresAt ?opts = JDate (Some (now + n * 86400000))"
    using compute_expiresAt_fixed_zone [of n js _ now]
    by (auto simp: e msPerDay_def)
  have 5: "\<forall>res k. generateApiKey svc ?opts = Resolves (Some res)
        \<and> r_apiKey res = Some k \<and> k \<noteq> [] \<longrightarrow>
      (\<exists>d. fst (generate_key_handler js svc now now' body) = (200, Success d k)
         \<and> d_expiresAt d = r_expiresAt res
         \<and> (r_expiresAt res = o_expiresAt ?opts \<and> n = 0 \<longrightarrow> d_expiresAt d = JNull))"
  proof (intro allI impI)
    fix res k
    assume "generateApiKey svc ?opts = Resolves (Some res) \<and> r_apiKey res = Some k \<and> k \<noteq> []"
    then have "fst (generate_key_handler js svc now now' body) = success_response k res"
      using handler_issues [OF body valid desc, of svc now res k now'] by simp
    then show "\<exists>d. fst (generate_key_handler js svc now now' body) = (200, Success d k)
         \<and> d_expiresAt d = r_expiresAt res
         \<and> (r_expiresAt res = o_expiresAt ?opts \<and> n = 0 \<longrightarrow> d_expiresAt d = JNull)"
      using 2 by (simp add: success_response_explicit)
  qed
  have 6: "field ''expirationDays'' = JUndefined \<longrightarrow> n = 30"
  proof
    assume "field ''expirationDays'' = JUndefined"
    with days have "(of_int n :: real) = of_int 30"
      by (simp add: with_default_def)
    then show "n = 30"
      by (simp only: of_int_eq_iff)
  qed
  from 1 2 3 4 5 have main: "\<exists>opts. issue_calls (snd (generate_key_handler js svc now now' body)) = [Issue opts]
            \<and> (n = 0 \<longrightarrow> o_expiresAt opts = JNull)
            \<and> (0 < n \<and> \<bar>u\<bar> \<le> 8640000000000000 \<longrightarrow>
                 o_expiresAt opts = JDate (Some u)
                 \<and> (LocalTZA js u True = LocalTZA js lt False \<longrightarrow>
                      (u + LocalTZA js u True) div 86400000
                        = (now + LocalTZA js now True) div 86400000 + n
                      \<and> (u + LocalTZA js u True) mod 86400000
                        = (now + LocalTZA js now True) mod 86400000))
            \<and> (\<forall>z. 0 < n \<and> (\<forall>t b. LocalTZA js t b = z)
                     \<and> \<bar>now + n * 86400000\<bar> \<le> 8640000000000000 \<longrightarrow>
                   o_expiresAt opts = JDate (Some (now + n * 86400000)))
            \<and> (\<forall>res k. generateApiKey svc opts = Resolves (Some res)
                     \<and> r_apiKey res = Some k \<and> k \<noteq> [] \<longrightarrow>
                   (\<exists>d. fst (generate_key_handler js svc now now' body) = (200, Success d k)
                      \<and> d_expiresAt d = r_expiresAt res
                      \<and> (r_expiresAt res = o_expiresAt opts \<and> n = 0 \<longrightarrow> d_expiresAt d = JNull)))"
    by (intro exI [of _ "apiKeyOptions_of js now field desc"] conjI)
  from main 6 show ?thesis
    by (rule conjI)
qed

theorem expiry_computation_witness:
  "issue_calls (snd (generate_key_handler stub_builtins stub_services
       1700000000000 1700000000000 (JObj [(''name'', JStr ''Test API Key'')])))
     = [Issue \<lparr> o_name = ''Test API Key'', o_description = [], o_tokenLimit = JUndefined,
                o_expiresAt = JDate (Some 1702592000000), o_dailyCostLimit = JUndefined,
                o_monthlyCostLimit = JUndefined, o_createdBy = ''public-api'',
                o_activationMode = ''immediate'' \<rparr>]
   \<and> (1702592000000 :: int) = 1700000000000 + 30 * 86400000
   \<and> issue_calls (snd (generate_key_handler stub_builtins stub_services
       1700000000000 1700000000000
       (JObj [(''name'', JStr ''Test API Key''), (''expirationDays'', JNum (Fin 0))])))
     = [Issue \<lparr> o_name = ''Test API Key'', o_description = [], o_tokenLimit = JUndefined,
                o_expiresAt = JNull, o_dailyCostLimit = JUndefined,
                o_monthlyCostLimit = JUndefined, o_createdBy = ''public-api'',
                o_activationMode = ''immediate'' \<rparr>]"
proof -
  let ?f = "\<lambda>k. case map_of [(''name'', JStr ''Test API Key'')] k of
               None \<Rightarrow> JUndefined | Some v \<Rightarrow> v"
  let ?g = "\<lambda>k. case map_of [(''name'', JStr ''Test API Key''),
               (''expirationDays'', JNum (Fin 0))] k of
               None \<Rightarrow> JUndefined | Some v \<Rightarrow> v"
  have vf: "validation_passes stub_builtins ?f"
    by (simp add: validation_passes_def name_valid_test limit_invalid_absent)
  have vg: "validation_passes stub_builtins ?g"
    by (simp add: validation_passes_def name_valid_test limit_invalid_absent)
  have tf: "trim_description (?f ''description'') = Some []"
    by (simp add: trim_description_def)
  have tg: "trim_description (?g ''description'') = Some []"
    by (simp add: trim_description_def)
  have z: "\<And>t b. LocalTZA stub_builtins t b = 0"
    by (simp add: stub_builtins_def)
  have cf: "issue_calls (snd (generate_key_handler stub_builtins stub_services
       1700000000000 1700000000000 (JObj [(''name'', JStr ''Test API Key'')])))
      = [Issue (apiKeyOptions_of stub_builtins 1700000000000 ?f [])]"
    using destructure_object vf tf by (rule handler_issue_calls)
  have cg: "issue_calls (snd (generate_key_handler stub_builtins stub_services
       1700000000000 1700000000000
       (JObj [(''name'', JStr ''Test API Key''), (''expirationDays'', JNum (Fin 0))])))
      = [Issue (apiKeyOptions_of stub_builtins 1700000000000 ?g [])]"
    using destructure_object vg tg by (rule handler_issue_calls)
  have a: "o_expiresAt (apiKeyOptions_of stub_builtins 1700000000000 ?f [])
      = JDate (Some 1702592000000)"
    using expiry_computation [where n = 30 and svc = stub_services and now = 1700000000000
        and now' = 1700000000000 and lt = 1702592000000 and u = 1702592000000,
        OF destructure_object vf tf]
    by (simp add: with_default_def cf z)
  have b: "o_expiresAt (apiKeyOptions_of stub_builtins 1700000000000 ?g []) = JNull"
    using expiry_computation [where n = 0 and svc = stub_services and now = 1700000000000
        and now' = 1700000000000 and lt = 1700000000000 and u = 1700000000000,
        OF destructure_object vg tg]
    by (simp add: with_default_def cg z)
  have "apiKeyOptions_of stub_builtins 1700000000000 ?f []
      = \<lparr> o_name = ''Test API Key'', o_description = [], o_tokenLimit = JUndefined,
          o_expiresAt = JDate (Some 1702592000000), o_dailyCostLimit = JUndefined,
          o_monthlyCostLimit = JUndefined, o_createdBy = ''public-api'',
          o_activationMode = ''immediate'' \<rparr>"
    using a by (simp add: apiKeyOptions_of_explicit trim_test_name)
  moreover have "apiKeyOptions_of stub_builtins 1700000000000 ?g []
      = \<lparr> o_name = ''Test API Key'', o_description = [], o_tokenLimit = JUndefined,
          o_expiresAt = JNull, o_dailyCostLimit = JUndefined,
          o_monthlyCostLimit = JUndefined, o_createdBy = ''public-api'',
          o_activationMode = ''immediate'' \<rparr>"
    using b by (simp add: apiKeyOptions_of_explicit trim_test_name)
  ultimately show ?thesis
    using cf cg by simp
qed

section \<open>Properties of the success response\<close>

lemma occurs_in_length: "occurs_in k s \<Longrightarrow> length k \<le> length s"
proof (induction s)
  case Nil
  then show ?case by simp
next
  case (Cons c s)
  from Cons.prems have "take (length k) (c # s) = k \<or> occurs_in k s"
    by simp
  then show ?case
  proof
    assume "take (length k) (c # s) = k"
    then have "length (take (length k) (c # s)) = length k"
      by simp
    then show ?thesis
      by simp
  next
    assume "occurs_in k s"
    with Cons.IH show ?thesis by simp
  qed
qed

text \<open>
  C8, as stated, at an issuance service that returns the key \<^verbatim>\<open>cr_1\<close>: the response
  is a success, and the full key stands inside the data object, at the start of
  \<^verbatim>\<open>data.keyPrefix\<close>.
\<close>

theorem short_key_counterexample:
  "generate_key_handler stub_builtins short_key_services 1700000000000 1700000000000
     (JObj [(''name'', JStr ''Test API Key''), (''expirationDays'', JNum (Fin 0)),
            (''notifyFeishu'', JBool False)])
   = ((200, Success
         \<lparr> d_id = JStr ''key-1'', d_name = JStr ''Test API Key'', d_description = JStr [],
           d_keyPrefix = ''cr_1...'', d_tokenLimit = JUndefined,
           d_dailyCostLimit = JUndefined, d_monthlyCostLimit = JUndefined,
           d_expiresAt = JNull, d_createdAt = JStr ''2023-11-14T22:13:20.000Z'',
           d_status = JStr ''active'' \<rparr>
         ''cr_1''),
      [Issue \<lparr> o_name = ''Test API Key'', o_description = [], o_tokenLimit = JUndefined,
                o_expiresAt = JNull, o_dailyCostLimit = JUndefined,
                o_monthlyCostLimit = JUndefined, o_createdBy = ''public-api'',
                o_activationMode = ''immediate'' \<rparr>,
       LogInfo ''Public API generated new API key: key-1''])
   \<and> occurs_in ''cr_1'' ''cr_1...''"
proof -
  let ?f = "\<lambda>k. case map_of [(''name'', JStr ''Test API Key''),
      (''expirationDays'', JNum (Fin 0)), (''notifyFeishu'', JBool False)] k of
      None \<Rightarrow> JUndefined | Some v \<Rightarrow> v"
  have v: "validation_passes stub_builtins ?f"
    by (simp add: validation_passes_def name_valid_test limit_invalid_absent)
  have t: "trim_description (?f ''description'') = Some []"
    by (simp add: trim_description_def)
  have e: "compute_expiresAt stub_builtins 1700000000000 (JNum (Fin 0)) = JNull"
    using compute_expiresAt_int [of stub_builtins 1700000000000 0] by simp
  have "generate_key_handler stub_builtins short_key_services 1700000000000 1700000000000
     (JObj [(''name'', JStr ''Test API Key''), (''expirationDays'', JNum (Fin 0)),
            (''notifyFeishu'', JBool False)])
   = ((200, Success
         \<lparr> d_id = JStr ''key-1'', d_name = JStr ''Test API Key'', d_description = JStr [],
           d_keyPrefix = ''cr_1...'', d_tokenLimit = JUndefined,
           d_dailyCostLimit = JUndefined, d_monthlyCostLimit = JUndefined,
           d_expiresAt = JNull, d_createdAt = JStr ''2023-11-14T22:13:20.000Z'',
           d_status = JStr ''active'' \<rparr>
         ''cr_1''),
      [Issue \<lparr> o_name = ''Test API Key'', o_description = [], o_tokenLimit = JUndefined,
                o_expiresAt = JNull, o_dailyCostLimit = JUndefined,
                o_monthlyCostLimit = JUndefined, o_createdBy = ''public-api'',
                o_activationMode = ''immediate'' \<rparr>,
       LogInfo ''Public API generated new API key: key-1''])"
    using handler_issues [where svc = short_key_services and now = 1700000000000
        and res = "(stub_result (apiKeyOptions_of stub_builtins 1700000000000 ?f []))
           \<lparr>r_apiKey := Some ''cr_1''\<rparr>"
        and k = "''cr_1''" and now' = 1700000000000,
        OF destructure_object v t]
    by (simp add: short_key_services_def stub_result_def success_response_explicit
        apiKeyOptions_of_explicit notify_step_def with_default_def trim_test_name e)
  moreover have "occurs_in ''cr_1'' ''cr_1...''"
    by simp
  ultimately show ?thesis ..
qed

text \<open>
  C8, amended. In every response with a success payload the status is 200, the
  top-level \<^verbatim>\<open>apiKey\<close> is the key the issuance service returned, and the data object
  is made of nine fields copied from the metadata the service returned (id, name,
  description, the three limits, expiry, creation time, status) and of
  \<^verbatim>\<open>keyPrefix\<close>, the first 8 characters of the key followed by three dots; no field
  is read from the key otherwise. A key longer than 11 characters does not occur in
  \<^verbatim>\<open>keyPrefix\<close>.
\<close>

theorem success_payload_consistent:
  assumes "generate_key_handler js svc now now' body = ((st, Success d k), evs)"
  shows "st = 200
       \<and> d_keyPrefix d = take 8 k @ ''...''
       \<and> (\<exists>opts res. Issue opts \<in> set evs
             \<and> generateApiKey svc opts = Resolves (Some res) \<and> r_apiKey res = Some k
             \<and> d = \<lparr> d_id = r_id res, d_name = r_name res,
                     d_description = r_description res,
                     d_keyPrefix = take 8 k @ ''...'',
                     d_tokenLimit = r_tokenLimit res,
                     d_dailyCostLimit = r_dailyCostLimit res,
                     d_monthlyCostLimit = r_monthlyCostLimit res,
                     d_expiresAt = r_expiresAt res, d_createdAt = r_createdAt res,
                     d_status = r_status res \<rparr>)
       \<and> (11 < length k \<longrightarrow> \<not> occurs_in k (d_keyPrefix d))"
proof -
  from handler_success_inversion [OF assms] obtain field desc res
    where body: "destructure body = Some field"
      and valid: "validation_passes js field"
      and desc: "trim_description (field ''description'') = Some desc"
      and gen: "generateApiKey svc (apiKeyOptions_of js now field desc) = Resolves (Some res)"
      and key: "r_apiKey res = Some k" "k \<noteq> []"
    by blast
  from handler_issues [OF body valid desc gen key, of now'] assms
  have r: "success_response k res = (st, Success d k)"
    and ev: "Issue (apiKeyOptions_of js now field desc) \<in> set evs"
    by auto
  from r have st: "st = 200"
    and d: "d = \<lparr> d_id = r_id res, d_name = r_name res,
                  d_description = r_description res,
                  d_keyPrefix = take 8 k @ ''...'',
                  d_tokenLimit = r_tokenLimit res,
                  d_dailyCostLimit = r_dailyCostLimit res,
                  d_monthlyCostLimit = r_monthlyCostLimit res,
                  d_expiresAt = r_expiresAt res, d_createdAt = r_createdAt res,
                  d_status = r_status res \<rparr>"
    by (simp_all add: success_response_explicit)
  from d have p: "d_keyPrefix d = take 8 k @ ''...''"
    by simp
  have long: "11 < length k \<longrightarrow> \<not> occurs_in k (d_keyPrefix d)"
  proof (intro impI notI)
    assume "11 < length k" and "occurs_in k (d_keyPrefix d)"
    then have "length k \<le> length (take 8 k @ ''...'')"
      using occurs_in_length [of k "d_keyPrefix d"] by (simp only: p)
    with \<open>11 < length k\<close> show False
      by simp
  qed
  from ev gen key d
  have "\<exists>opts res. Issue opts \<in> set evs
      \<and> generateApiKey svc opts = Resolves (Some res) \<and> r_apiKey res = Some k
      \<and> d = \<lparr> d_id = r_id res, d_name = r_name res,
              d_description = r_description res,
              d_keyPrefix = take 8 k @ ''...'',
              d_tokenLimit = r_tokenLimit res,
              d_dailyCostLimit = r_dailyCostLimit res,
              d_monthlyCostLimit = r_monthlyCostLimit res,
              d_expiresAt = r_expiresAt res, d_createdAt = r_createdAt res,
              d_status = r_status res \<rparr>"
    by blast
  with st p long show ?thesis
    by (intro conjI)
qed

theorem success_payload_consistent_witness:
  "generate_key_handler stub_builtins stub_services 1700000000000 1700000000000
     (JObj [(''name'', JStr ''Test API Key''), (''expirationDays'', JNum (Fin 0)),
            (''notifyFeishu'', JBool False)])
   = ((200, Success
         \<lparr> d_id = JStr ''key-1'', d_name = JStr ''Test API Key'', d_description = JStr [],
           d_keyPrefix = ''cr_01234...'', d_tokenLimit = JUndefined,
           d_dailyCostLimit = JUndefined, d_monthlyCostLimit = JUndefined,
           d_expiresAt = JNull, d_createdAt = JStr ''2023-11-14T22:13:20.000Z'',
           d_status = JStr ''active'' \<rparr>
         ''cr_0123456789abcdef''),
      [Issue \<lparr> o_name = ''Test API Key'', o_description = [], o_tokenLimit = JUndefined,
                o_expiresAt = JNull, o_dailyCostLimit = JUndefined,
                o_monthlyCostLimit = JUndefined, o_createdBy = ''public-api'',
                o_activationMode = ''immediate'' \<rparr>,
       LogInfo ''Public API generated new API key: key-1''])
   \<and> ''cr_01234...'' = take 8 ''cr_0123456789abcdef'' @ ''...''
   \<and> \<not> occurs_in ''cr_0123456789abcdef'' ''cr_01234...''"
proof -
  let ?body = "JObj [(''name'', JStr ''Test API Key''), (''expirationDays'', JNum (Fin 0)),
      (''notifyFeishu'', JBool False)]"
  let ?f = "\<lambda>k. case map_of [(''name'', JStr ''Test API Key''),
      (''expirationDays'', JNum (Fin 0)), (''notifyFeishu'', JBool False)] k of
      None \<Rightarrow> JUndefined | Some v \<Rightarrow> v"
  let ?d = "\<lparr> d_id = JStr ''key-1'', d_name = JStr ''Test API Key'', d_description = JStr [],
       d_keyPrefix = ''cr_01234...'', d_tokenLimit = JUndefined,
       d_dailyCostLimit = JUndefined, d_monthlyCostLimit = JUndefined,
       d_expiresAt = JNull, d_createdAt = JStr ''2023-11-14T22:13:20.000Z'',
       d_status = JStr ''active'' \<rparr>"
  let ?o = "\<lparr> o_name = ''Test API Key'', o_description = [], o_tokenLimit = JUndefined,
       o_expiresAt = JNull, o_dailyCostLimit = JUndefined,
       o_monthlyCostLimit = JUndefined, o_createdBy = ''public-api'',
       o_activationMode = ''immediate'' \<rparr>"
  have v: "validation_passes stub_builtins ?f"
    by (simp add: validation_passes_def name_valid_test limit_invalid_absent)
  have t: "trim_description (?f ''description'') = Some []"
    by (simp add: trim_description_def)
  have e: "compute_expiresAt stub_builtins 1700000000000 (JNum (Fin 0)) = JNull"
    using compute_expiresAt_int [of stub_builtins 1700000000000 0] by simp
  have h: "generate_key_handler stub_builtins stub_services 1700000000000 1700000000000 ?body
      = ((200, Success ?d ''cr_0123456789abcdef''),
         [Issue ?o, LogInfo ''Public API generated new API key: key-1''])"
    using handler_issues [where svc = stub_services and now = 1700000000000
        and res = "stub_result (apiKeyOptions_of stub_builtins 1700000000000 ?f [])"
        and k = "''cr_0123456789abcdef''" and now' = 1700000000000,
        OF destructure_object v t]
    by (simp add: stub_services_def stub_result_def success_response_explicit
        apiKeyOptions_of_explicit notify_step_def with_default_def trim_test_name e)
  from success_payload_consistent [OF h]
  have "''cr_01234...'' = take 8 ''cr_0123456789abcdef'' @ ''...''
      \<and> \<not> occurs_in ''cr_0123456789abcdef'' ''cr_01234...''"
    by simp
  with h show ?thesis ..
qed



end
